theory Spec2Isabelle
  imports Complex_Main
begin

section \<open>Errors\<close>

text \<open>
  Every exception class of \<^verbatim>\<open>products/exceptions\<close> is a constructor. The messages
  (Russian text) are left out, except that the \<^verbatim>\<open>ClientException\<close> of a model validator
  carries a tag for the message it was raised with. The last three constructors are the
  errors of the repository library underneath the services: a violated table constraint,
  a \<^verbatim>\<open>get_one_or_none\<close> that finds several rows, an \<^verbatim>\<open>update\<close> of a missing row.
\<close>

datatype client_message =
    NameTooShort | NameTooLong | VinFormat | ItnFormat | PsrnFormat

datatype error =
    CustomerNotFoundError
  | CustomerBelongsToAnotherUserError
  | MechanicNotFoundError
  | MechanicBelongsToAnotherUserError
  | AutoserviceNotFoundError
  | AutoserviceUserNotFoundError
  | AutoserviceUserDoesntHavePermissionsError
  | CountryNotFoundError
  | VehicleNotFoundError
  | VehicleBrandNotFoundError
  | VehicleModelNotFoundError
  | VehicleGenerationNotFoundError
  | VehicleModelDoesntMatchWithVehicleBrandError
  | VehicleGenerationDoesntMatchWithVehicleModelError
  | ProvidedMaintenanceTypeNotFoundError
  | ProvidedMaintenanceNotFoundError
  | ProvidedMaintenanceCountryAssociationNotFoundError
  | ProvidedMaintenanceVehicleBrandAssociationAlreadyExistsError
  | ProvidedMaintenanceCountryAssociationAlreadyExistsError
  | ClientException client_message
  | IntegrityError
  | MultipleResultsFound
  | RepositoryNotFoundError

section \<open>Strings and the regular expressions of the validators\<close>

text \<open>
  A Python \<^verbatim>\<open>str\<close> is modelled as a \<^typ>\<open>string\<close> whose characters are the code points
  below 256, so \<^const>\<open>length\<close> is Python's \<^verbatim>\<open>len\<close>. The character classes are written
  out as the characters they contain.

  \<^verbatim>\<open>\s\<close> on a \<^verbatim>\<open>str\<close> pattern is Unicode whitespace; below 256 these are the code
  points 9 to 13, 28 to 32, 133 and 160. \<^verbatim>\<open>\d\<close> is a Unicode decimal digit; below 256
  these are \<^verbatim>\<open>0\<close> to \<^verbatim>\<open>9\<close>.
\<close>

definition whitespace_chars :: string where
  "whitespace_chars =
     [CHR 0x09, CHR 0x0A, CHR 0x0B, CHR 0x0C, CHR 0x0D,
      CHR 0x1C, CHR 0x1D, CHR 0x1E, CHR 0x1F, CHR 0x20, CHR 0x85, CHR 0xA0]"

definition digit_chars :: string where
  "digit_chars = ''0123456789''"

text \<open>The class \<^verbatim>\<open>[A-HJ-NPR-Z0-9]\<close>, range by range.\<close>

definition vin_chars :: string where
  "vin_chars = ''ABCDEFGH'' @ ''JKLMN'' @ ''P'' @ ''RSTUVWXYZ'' @ ''0123456789''"

definition is_space :: "char \<Rightarrow> bool" where
  "is_space c \<longleftrightarrow> c \<in> set whitespace_chars"

definition is_digit :: "char \<Rightarrow> bool" where
  "is_digit c \<longleftrightarrow> c \<in> set digit_chars"

definition is_vin_char :: "char \<Rightarrow> bool" where
  "is_vin_char c \<longleftrightarrow> c \<in> set vin_chars"

text \<open>\<^verbatim>\<open>sub(r"\s+", "", s)\<close>: every run of whitespace is deleted.\<close>

definition sub_whitespace :: "string \<Rightarrow> string" where
  "sub_whitespace s = filter (\<lambda>c. \<not> is_space c) s"

text \<open>
  \<^verbatim>\<open>str.upper\<close>. Below 256 the cased characters are \<^verbatim>\<open>a\<close> to \<^verbatim>\<open>z\<close>, the
  letters 224 to 254 without the division sign 247, the sharp s 223 (which becomes the
  two letters \<^verbatim>\<open>SS\<close>), and the micro sign 181 and the y with diaeresis 255. The upper-case
  forms of the last two lie above 255; they are no VIN characters, and the model leaves the
  two characters as they are, which are no VIN characters either.
\<close>

definition lower_chars :: string where
  "lower_chars = ''abcdefghijklmnopqrstuvwxyz'' @
     [CHR 0xE0, CHR 0xE1, CHR 0xE2, CHR 0xE3, CHR 0xE4, CHR 0xE5, CHR 0xE6, CHR 0xE7,
      CHR 0xE8, CHR 0xE9, CHR 0xEA, CHR 0xEB, CHR 0xEC, CHR 0xED, CHR 0xEE, CHR 0xEF,
      CHR 0xF0, CHR 0xF1, CHR 0xF2, CHR 0xF3, CHR 0xF4, CHR 0xF5, CHR 0xF6,
      CHR 0xF8, CHR 0xF9, CHR 0xFA, CHR 0xFB, CHR 0xFC, CHR 0xFD, CHR 0xFE]"

definition upper_chars :: string where
  "upper_chars = ''ABCDEFGHIJKLMNOPQRSTUVWXYZ'' @
     [CHR 0xC0, CHR 0xC1, CHR 0xC2, CHR 0xC3, CHR 0xC4, CHR 0xC5, CHR 0xC6, CHR 0xC7,
      CHR 0xC8, CHR 0xC9, CHR 0xCA, CHR 0xCB, CHR 0xCC, CHR 0xCD, CHR 0xCE, CHR 0xCF,
      CHR 0xD0, CHR 0xD1, CHR 0xD2, CHR 0xD3, CHR 0xD4, CHR 0xD5, CHR 0xD6,
      CHR 0xD8, CHR 0xD9, CHR 0xDA, CHR 0xDB, CHR 0xDC, CHR 0xDD, CHR 0xDE]"

definition upper_char :: "char \<Rightarrow> string" where
  "upper_char c =
     (if c = CHR 0xDF then ''SS''
      else case map_of (zip lower_chars upper_chars) c of
             Some u \<Rightarrow> [u]
           | None \<Rightarrow> [c])"

definition upper :: "string \<Rightarrow> string" where
  "upper s = concat (map upper_char s)"

text \<open>
  \<^verbatim>\<open>$\<close> without \<^verbatim>\<open>MULTILINE\<close> matches at the end of the string and also just before a
  newline that is the last character.
\<close>

definition at_dollar :: "string \<Rightarrow> bool" where
  "at_dollar rest \<longleftrightarrow> rest = [] \<or> rest = [CHR 0x0A]"

text \<open>\<^verbatim>\<open>X{n}\<close> at the start of \<open>s\<close>: the first \<open>n\<close> characters exist and are in the class.\<close>

definition repeat_class :: "(char \<Rightarrow> bool) \<Rightarrow> nat \<Rightarrow> string \<Rightarrow> bool" where
  "repeat_class cls n s \<longleftrightarrow> n \<le> length s \<and> list_all cls (take n s)"

text \<open>\<^verbatim>\<open>match(r"^[A-HJ-NPR-Z0-9]{17}$", s)\<close>\<close>

definition match_vin :: "string \<Rightarrow> bool" where
  "match_vin s \<longleftrightarrow> repeat_class is_vin_char 17 s \<and> at_dollar (drop 17 s)"

text \<open>
  \<^verbatim>\<open>match(r"^\d{10}(\d{2})?$", s)\<close>: the optional group is tried first with two more
  digits, then without them.
\<close>

definition match_itn :: "string \<Rightarrow> bool" where
  "match_itn s \<longleftrightarrow>
     repeat_class is_digit 10 s \<and>
     ((repeat_class is_digit 2 (drop 10 s) \<and> at_dollar (drop 12 s)) \<or> at_dollar (drop 10 s))"

text \<open>\<^verbatim>\<open>match(r"^\d{13}$", s)\<close>\<close>

definition match_psrn :: "string \<Rightarrow> bool" where
  "match_psrn s \<longleftrightarrow> repeat_class is_digit 13 s \<and> at_dollar (drop 13 s)"

section \<open>Model validators\<close>

text \<open>\<^verbatim>\<open>Vehicle.validate_vin\<close> (\<^verbatim>\<open>models/vehicle.py\<close>).\<close>

definition validate_vin :: "string option \<Rightarrow> error + string option" where
  "validate_vin vin =
     (case vin of
        None \<Rightarrow> Inr None
      | Some s \<Rightarrow>
          (let v = upper (sub_whitespace s)
           in if \<not> match_vin v then Inl (ClientException VinFormat) else Inr (Some v)))"

text \<open>\<^verbatim>\<open>Autoservice.validate_itn\<close> and \<^verbatim>\<open>Autoservice.validate_psrn\<close> (\<^verbatim>\<open>models/autoservice.py\<close>).\<close>

definition validate_itn :: "string \<Rightarrow> error + string" where
  "validate_itn v = (if \<not> match_itn v then Inl (ClientException ItnFormat) else Inr v)"

definition validate_psrn :: "string \<Rightarrow> error + string" where
  "validate_psrn v = (if \<not> match_psrn v then Inl (ClientException PsrnFormat) else Inr v)"

text \<open>
  \<^verbatim>\<open>Customer.validate_name\<close> (\<^verbatim>\<open>models/customer.py\<close>) and \<^verbatim>\<open>Mechanic.validate_name\<close>
  (\<^verbatim>\<open>models/mechanic.py\<close>). Both set \<^verbatim>\<open>error_message\<close> in an \<^verbatim>\<open>if\<close>/\<^verbatim>\<open>elif\<close> and raise
  when it was set; the two differ in the wording of the message only.
\<close>

definition customer_validate_name :: "string \<Rightarrow> error + string" where
  "customer_validate_name name =
     (let error_message =
            (if length name < 2 then Some NameTooShort
             else if length name > 150 then Some NameTooLong
             else None)
      in case error_message of Some m \<Rightarrow> Inl (ClientException m) | None \<Rightarrow> Inr name)"

definition mechanic_validate_name :: "string \<Rightarrow> error + string" where
  "mechanic_validate_name name =
     (let error_message =
            (if length name < 2 then Some NameTooShort
             else if length name > 150 then Some NameTooLong
             else None)
      in case error_message of Some m \<Rightarrow> Inl (ClientException m) | None \<Rightarrow> Inr name)"

section \<open>Entities\<close>

text \<open>
  One record per mapped class of \<^verbatim>\<open>products/models\<close>, one field per column; a nullable
  column is an \<^typ>\<open>'a option\<close>. A \<^verbatim>\<open>UUID\<close> is the number it encodes, a timestamp is a number,
  and the \<^verbatim>\<open>float\<close> columns (coordinates, price) are payload that no operation computes with.
  Relationship attributes are not columns and are left out.
\<close>

type_synonym uuid = nat
type_synonym datetime = int
type_synonym float = real

record user =
  user_uid :: uuid

record customer =
  customer_id :: uuid
  customer_name :: string
  customer_city :: "string option"
  customer_uid :: uuid
  customer_updated_at :: "datetime option"
  customer_created_at :: datetime

record mechanic =
  mechanic_id :: uuid
  mechanic_name :: string
  mechanic_description :: "string option"
  mechanic_city :: string
  mechanic_address :: "string option"
  mechanic_lon :: "float option"
  mechanic_lat :: "float option"
  mechanic_private :: bool
  mechanic_mobile :: bool
  mechanic_uid :: uuid
  mechanic_updated_at :: "datetime option"
  mechanic_created_at :: datetime

datatype autoservice_user_permissions =
    autoservice_manage
  | autoservice_manage_provided_maintenance

record autoservice_user =
  autoservice_user_uid :: uuid
  autoservice_user_autoservice_id :: uuid
  autoservice_user_permissions :: "autoservice_user_permissions list"

record autoservice =
  autoservice_id :: uuid
  autoservice_name :: string
  autoservice_description :: "string option"
  autoservice_itn :: string
  autoservice_psrn :: string
  autoservice_city :: string
  autoservice_address :: string
  autoservice_lon :: "float option"
  autoservice_lat :: "float option"
  autoservice_updated_at :: "datetime option"
  autoservice_created_at :: datetime

record country =
  country_id :: int
  country_name :: string

record vehicle_brand =
  vehicle_brand_id :: int
  vehicle_brand_name :: string
  vehicle_brand_popular :: bool
  vehicle_brand_country_id :: int

record vehicle_model =
  vehicle_model_id :: int
  vehicle_model_name :: string
  vehicle_model_vehicle_brand_id :: int

record vehicle_generation =
  vehicle_generation_id :: int
  vehicle_generation_name :: string
  vehicle_generation_start_year_production :: int
  vehicle_generation_end_year_production :: "int option"
  vehicle_generation_vehicle_model_id :: int

record vehicle =
  vehicle_id :: uuid
  vehicle_state_number :: "string option"
  vehicle_vin :: "string option"
  vehicle_vehicle_brand_id :: int
  vehicle_vehicle_model_id :: int
  vehicle_vehicle_generation_id :: int
  vehicle_customer_id :: uuid

record provided_maintenance_type =
  provided_maintenance_type_id :: int
  provided_maintenance_type_name :: string
  provided_maintenance_type_category_id :: int

record provided_maintenance =
  provided_maintenance_id :: uuid
  provided_maintenance_price :: float
  provided_maintenance_description :: "string option"
  provided_maintenance_provided_maintenance_type_id :: int
  provided_maintenance_mechanic_id :: "uuid option"
  provided_maintenance_autoservice_id :: "uuid option"

record provided_maintenance_country_association =
  country_association_provided_maintenance_id :: uuid
  country_association_country_id :: int

record provided_maintenance_vehicle_brand_association =
  vehicle_brand_association_provided_maintenance_id :: uuid
  vehicle_brand_association_vehicle_brand_id :: int

text \<open>
  The entity a PATCH handler passes to the service is an instance of the same class built
  from the request body, where any attribute may be unset or \<^verbatim>\<open>None\<close>: every column is
  optional. \<^verbatim>\<open>to_dict\<close> lists the columns; unset and \<^verbatim>\<open>None\<close> are dropped alike by the
  services (\<^verbatim>\<open>if value is not None\<close>).
\<close>

record changed_customer =
  changed_customer_id :: "uuid option"
  changed_customer_name :: "string option"
  changed_customer_city :: "string option"
  changed_customer_uid :: "uuid option"
  changed_customer_updated_at :: "datetime option"
  changed_customer_created_at :: "datetime option"

record changed_mechanic =
  changed_mechanic_id :: "uuid option"
  changed_mechanic_name :: "string option"
  changed_mechanic_description :: "string option"
  changed_mechanic_city :: "string option"
  changed_mechanic_address :: "string option"
  changed_mechanic_lon :: "float option"
  changed_mechanic_lat :: "float option"
  changed_mechanic_private :: "bool option"
  changed_mechanic_mobile :: "bool option"
  changed_mechanic_uid :: "uuid option"
  changed_mechanic_updated_at :: "datetime option"
  changed_mechanic_created_at :: "datetime option"

record changed_autoservice =
  changed_autoservice_id :: "uuid option"
  changed_autoservice_name :: "string option"
  changed_autoservice_description :: "string option"
  changed_autoservice_itn :: "string option"
  changed_autoservice_psrn :: "string option"
  changed_autoservice_city :: "string option"
  changed_autoservice_address :: "string option"
  changed_autoservice_lon :: "float option"
  changed_autoservice_lat :: "float option"
  changed_autoservice_updated_at :: "datetime option"
  changed_autoservice_created_at :: "datetime option"

text \<open>
  \<^verbatim>\<open>update_data\<close>: the dictionary of the columns that are neither excluded nor \<^verbatim>\<open>None\<close>.
  A key that is absent from the dictionary is \<^const>\<open>None\<close> here.
\<close>

record customer_update_data =
  update_customer_name :: "string option"
  update_customer_city :: "string option"

record mechanic_update_data =
  update_mechanic_name :: "string option"
  update_mechanic_description :: "string option"
  update_mechanic_city :: "string option"
  update_mechanic_address :: "string option"
  update_mechanic_lon :: "float option"
  update_mechanic_lat :: "float option"
  update_mechanic_private :: "bool option"
  update_mechanic_mobile :: "bool option"

record autoservice_update_data =
  update_autoservice_name :: "string option"
  update_autoservice_description :: "string option"
  update_autoservice_city :: "string option"
  update_autoservice_lat :: "float option"

section \<open>The database\<close>

text \<open>The state is the content of the tables, each a list of rows in insertion order.\<close>

record db =
  customers :: "customer list"
  mechanics :: "mechanic list"
  autoservices :: "autoservice list"
  autoservice_users :: "autoservice_user list"
  countries :: "country list"
  vehicle_brands :: "vehicle_brand list"
  vehicle_models :: "vehicle_model list"
  vehicle_generations :: "vehicle_generation list"
  vehicles :: "vehicle list"
  provided_maintenance_types :: "provided_maintenance_type list"
  provided_maintenances :: "provided_maintenance list"
  provided_maintenance_country_associations :: "provided_maintenance_country_association list"
  provided_maintenance_vehicle_brand_associations ::
    "provided_maintenance_vehicle_brand_association list"

subsection \<open>The repository operations the services call\<close>

text \<open>
  \<^verbatim>\<open>get_one_or_none(criterion)\<close>: the row that satisfies the criterion, \<^verbatim>\<open>None\<close> when there is
  none, and an error when there are several.
\<close>

definition get_one_or_none :: "('r \<Rightarrow> bool) \<Rightarrow> 'r list \<Rightarrow> error + 'r option" where
  "get_one_or_none criterion rows =
     (case filter criterion rows of
        [] \<Rightarrow> Inr None
      | [r] \<Rightarrow> Inr (Some r)
      | _ # _ # _ \<Rightarrow> Inl MultipleResultsFound)"

text \<open>
  \<^verbatim>\<open>create(data)\<close>: the row is inserted when the constraints declared for its table allow it
  beside the rows already there; otherwise the database refuses the insert.
\<close>

definition create :: "('r \<Rightarrow> 'r list \<Rightarrow> bool) \<Rightarrow> 'r \<Rightarrow> 'r list \<Rightarrow> error + 'r list" where
  "create constraints data rows =
     (if constraints data rows then Inr (rows @ [data]) else Inl IntegrityError)"

text \<open>
  \<^verbatim>\<open>update(data, item_id)\<close>: the row with that primary key is fetched (an error when it is
  missing) and the columns present in \<^verbatim>\<open>data\<close> are set on it. None of the columns the
  services update takes part in a key or check constraint.
\<close>

definition update :: "('r \<Rightarrow> bool) \<Rightarrow> ('r \<Rightarrow> 'r) \<Rightarrow> 'r list \<Rightarrow> error + 'r \<times> 'r list" where
  "update is_item set_data rows =
     (case get_one_or_none is_item rows of
        Inl e \<Rightarrow> Inl e
      | Inr None \<Rightarrow> Inl RepositoryNotFoundError
      | Inr (Some r) \<Rightarrow> Inr (set_data r, map (\<lambda>x. if is_item x then set_data x else x) rows))"

subsection \<open>Declared table constraints\<close>

text \<open>
  Primary keys, \<^verbatim>\<open>unique=True\<close> columns and the \<^verbatim>\<open>CheckConstraint\<close> of
  \<^verbatim>\<open>ProvidedMaintenance.__table_args__\<close>. A unique column that is nullable admits any number
  of \<^verbatim>\<open>NULL\<close>s. Foreign keys are not modelled: the services look every referenced row up
  before they insert.
\<close>

definition customers_constraints :: "customer \<Rightarrow> customer list \<Rightarrow> bool" where
  "customers_constraints c rows \<longleftrightarrow>
     customer_id c \<notin> set (map customer_id rows) \<and> customer_uid c \<notin> set (map customer_uid rows)"

definition mechanics_constraints :: "mechanic \<Rightarrow> mechanic list \<Rightarrow> bool" where
  "mechanics_constraints m rows \<longleftrightarrow>
     mechanic_id m \<notin> set (map mechanic_id rows) \<and> mechanic_uid m \<notin> set (map mechanic_uid rows)"

definition autoservices_constraints :: "autoservice \<Rightarrow> autoservice list \<Rightarrow> bool" where
  "autoservices_constraints a rows \<longleftrightarrow> autoservice_id a \<notin> set (map autoservice_id rows)"

definition autoservice_user_key :: "autoservice_user \<Rightarrow> uuid \<times> uuid" where
  "autoservice_user_key r = (autoservice_user_uid r, autoservice_user_autoservice_id r)"

definition autoservice_users_constraints :: "autoservice_user \<Rightarrow> autoservice_user list \<Rightarrow> bool" where
  "autoservice_users_constraints r rows \<longleftrightarrow>
     autoservice_user_key r \<notin> set (map autoservice_user_key rows)"

definition vehicles_constraints :: "vehicle \<Rightarrow> vehicle list \<Rightarrow> bool" where
  "vehicles_constraints v rows \<longleftrightarrow>
     vehicle_id v \<notin> set (map vehicle_id rows) \<and>
     (vehicle_vin v = None \<or> vehicle_vin v \<notin> set (map vehicle_vin rows))"

definition check_mechanic_or_autoservice :: "provided_maintenance \<Rightarrow> bool" where
  "check_mechanic_or_autoservice pm \<longleftrightarrow>
     provided_maintenance_mechanic_id pm \<noteq> None \<or> provided_maintenance_autoservice_id pm \<noteq> None"

definition provided_maintenances_constraints ::
  "provided_maintenance \<Rightarrow> provided_maintenance list \<Rightarrow> bool" where
  "provided_maintenances_constraints pm rows \<longleftrightarrow>
     provided_maintenance_id pm \<notin> set (map provided_maintenance_id rows) \<and>
     check_mechanic_or_autoservice pm"

definition country_association_key :: "provided_maintenance_country_association \<Rightarrow> uuid \<times> int" where
  "country_association_key r =
     (country_association_provided_maintenance_id r, country_association_country_id r)"

definition country_associations_constraints ::
  "provided_maintenance_country_association \<Rightarrow> provided_maintenance_country_association list \<Rightarrow> bool" where
  "country_associations_constraints r rows \<longleftrightarrow>
     country_association_key r \<notin> set (map country_association_key rows)"

definition vehicle_brand_association_key ::
  "provided_maintenance_vehicle_brand_association \<Rightarrow> uuid \<times> int" where
  "vehicle_brand_association_key r =
     (vehicle_brand_association_provided_maintenance_id r,
      vehicle_brand_association_vehicle_brand_id r)"

definition vehicle_brand_associations_constraints ::
  "provided_maintenance_vehicle_brand_association \<Rightarrow>
   provided_maintenance_vehicle_brand_association list \<Rightarrow> bool" where
  "vehicle_brand_associations_constraints r rows \<longleftrightarrow>
     vehicle_brand_association_key r \<notin> set (map vehicle_brand_association_key rows)"

section \<open>Services\<close>

text \<open>
  A service method that only reads returns \<^typ>\<open>error + 'a\<close>; one that writes returns the
  result together with the database after it. An exception leaves the database as it was at
  the \<^verbatim>\<open>raise\<close>: the rollback that the request handler adds is outside the services.
\<close>

subsection \<open>\<^verbatim>\<open>services/customer.py\<close>\<close>

definition get_customer_by_customer_id :: "db \<Rightarrow> uuid \<Rightarrow> error + customer" where
  "get_customer_by_customer_id db cid =
     (case get_one_or_none (\<lambda>c. customer_id c = cid) (customers db) of
        Inl e \<Rightarrow> Inl e
      | Inr None \<Rightarrow> Inl CustomerNotFoundError
      | Inr (Some customer) \<Rightarrow> Inr customer)"

definition create_customer :: "db \<Rightarrow> customer \<Rightarrow> user \<Rightarrow> (error + customer) \<times> db" where
  "create_customer db customer u =
     (case get_one_or_none (\<lambda>c. customer_uid c = user_uid u) (customers db) of
        Inl e \<Rightarrow> (Inl e, db)
      | Inr (Some saved_customer) \<Rightarrow> (Inr saved_customer, db)
      | Inr None \<Rightarrow>
          (let customer = customer\<lparr>customer_uid := user_uid u\<rparr>
           in case create customers_constraints customer (customers db) of
                Inl e \<Rightarrow> (Inl e, db)
              | Inr rows \<Rightarrow> (Inr customer, db\<lparr>customers := rows\<rparr>)))"

text \<open>
  The columns of \<^verbatim>\<open>Customer\<close> without the excluded
  \<^verbatim>\<open>customer_id, vehicles, uid, created_at, updated_at\<close>.
\<close>

definition customer_update_data :: "changed_customer \<Rightarrow> customer_update_data" where
  "customer_update_data changed =
     \<lparr>update_customer_name = changed_customer_name changed,
      update_customer_city = changed_customer_city changed\<rparr>"

definition set_customer_data :: "customer_update_data \<Rightarrow> customer \<Rightarrow> customer" where
  "set_customer_data d c =
     c\<lparr>customer_name := (case update_customer_name d of Some v \<Rightarrow> v | None \<Rightarrow> customer_name c),
       customer_city := (case update_customer_city d of Some v \<Rightarrow> Some v | None \<Rightarrow> customer_city c)\<rparr>"

definition patch_customer ::
  "db \<Rightarrow> uuid \<Rightarrow> changed_customer \<Rightarrow> user \<Rightarrow> (error + customer) \<times> db" where
  "patch_customer db cid changed u =
     (let update_data = customer_update_data changed
      in case get_customer_by_customer_id db cid of
           Inl e \<Rightarrow> (Inl e, db)
         | Inr customer \<Rightarrow>
             if customer_uid customer \<noteq> user_uid u
             then (Inl CustomerBelongsToAnotherUserError, db)
             else (case update (\<lambda>c. customer_id c = customer_id customer)
                          (set_customer_data update_data) (customers db) of
                     Inl e \<Rightarrow> (Inl e, db)
                   | Inr (c, rows) \<Rightarrow> (Inr c, db\<lparr>customers := rows\<rparr>)))"

subsection \<open>\<^verbatim>\<open>services/mechanic.py\<close>\<close>

definition validate_mechanic_owner :: "mechanic \<Rightarrow> user \<Rightarrow> error + unit" where
  "validate_mechanic_owner mechanic u =
     (if mechanic_uid mechanic \<noteq> user_uid u then Inl MechanicBelongsToAnotherUserError
      else Inr ())"

definition get_mechanic_by_mechanic_id :: "db \<Rightarrow> uuid \<Rightarrow> error + mechanic" where
  "get_mechanic_by_mechanic_id db mid =
     (case get_one_or_none (\<lambda>m. mechanic_id m = mid) (mechanics db) of
        Inl e \<Rightarrow> Inl e
      | Inr None \<Rightarrow> Inl MechanicNotFoundError
      | Inr (Some mechanic) \<Rightarrow> Inr mechanic)"

definition create_mechanic :: "db \<Rightarrow> mechanic \<Rightarrow> user \<Rightarrow> (error + mechanic) \<times> db" where
  "create_mechanic db mechanic u =
     (case get_one_or_none (\<lambda>m. mechanic_uid m = user_uid u) (mechanics db) of
        Inl e \<Rightarrow> (Inl e, db)
      | Inr (Some saved_mechanic) \<Rightarrow> (Inr saved_mechanic, db)
      | Inr None \<Rightarrow>
          (let mechanic = mechanic\<lparr>mechanic_uid := user_uid u\<rparr>
           in case create mechanics_constraints mechanic (mechanics db) of
                Inl e \<Rightarrow> (Inl e, db)
              | Inr rows \<Rightarrow> (Inr mechanic, db\<lparr>mechanics := rows\<rparr>)))"

text \<open>
  The columns of \<^verbatim>\<open>Mechanic\<close> without the excluded
  \<^verbatim>\<open>mechanic_id, uid, autoservices, provided_maintenance, created_at, updated_at\<close>.
\<close>

definition mechanic_update_data :: "changed_mechanic \<Rightarrow> mechanic_update_data" where
  "mechanic_update_data changed =
     \<lparr>update_mechanic_name = changed_mechanic_name changed,
      update_mechanic_description = changed_mechanic_description changed,
      update_mechanic_city = changed_mechanic_city changed,
      update_mechanic_address = changed_mechanic_address changed,
      update_mechanic_lon = changed_mechanic_lon changed,
      update_mechanic_lat = changed_mechanic_lat changed,
      update_mechanic_private = changed_mechanic_private changed,
      update_mechanic_mobile = changed_mechanic_mobile changed\<rparr>"

definition set_mechanic_data :: "mechanic_update_data \<Rightarrow> mechanic \<Rightarrow> mechanic" where
  "set_mechanic_data d m =
     m\<lparr>mechanic_name := (case update_mechanic_name d of Some v \<Rightarrow> v | None \<Rightarrow> mechanic_name m),
       mechanic_description :=
         (case update_mechanic_description d of Some v \<Rightarrow> Some v | None \<Rightarrow> mechanic_description m),
       mechanic_city := (case update_mechanic_city d of Some v \<Rightarrow> v | None \<Rightarrow> mechanic_city m),
       mechanic_address :=
         (case update_mechanic_address d of Some v \<Rightarrow> Some v | None \<Rightarrow> mechanic_address m),
       mechanic_lon := (case update_mechanic_lon d of Some v \<Rightarrow> Some v | None \<Rightarrow> mechanic_lon m),
       mechanic_lat := (case update_mechanic_lat d of Some v \<Rightarrow> Some v | None \<Rightarrow> mechanic_lat m),
       mechanic_private :=
         (case update_mechanic_private d of Some v \<Rightarrow> v | None \<Rightarrow> mechanic_private m),
       mechanic_mobile :=
         (case update_mechanic_mobile d of Some v \<Rightarrow> v | None \<Rightarrow> mechanic_mobile m)\<rparr>"

definition patch_mechanic ::
  "db \<Rightarrow> uuid \<Rightarrow> changed_mechanic \<Rightarrow> user \<Rightarrow> (error + mechanic) \<times> db" where
  "patch_mechanic db mid changed u =
     (let update_data = mechanic_update_data changed
      in case get_mechanic_by_mechanic_id db mid of
           Inl e \<Rightarrow> (Inl e, db)
         | Inr mechanic \<Rightarrow>
             if mechanic_uid mechanic \<noteq> user_uid u
             then (Inl MechanicBelongsToAnotherUserError, db)
             else (case update (\<lambda>m. mechanic_id m = mechanic_id mechanic)
                          (set_mechanic_data update_data) (mechanics db) of
                     Inl e \<Rightarrow> (Inl e, db)
                   | Inr (m, rows) \<Rightarrow> (Inr m, db\<lparr>mechanics := rows\<rparr>)))"

subsection \<open>\<^verbatim>\<open>services/autoservice.py\<close>\<close>

definition get_autoservice_user_by_uid_and_autoservice_id ::
  "db \<Rightarrow> uuid \<Rightarrow> uuid \<Rightarrow> error + autoservice_user" where
  "get_autoservice_user_by_uid_and_autoservice_id db uid aid =
     (case get_one_or_none
             (\<lambda>r. autoservice_user_uid r = uid \<and> autoservice_user_autoservice_id r = aid)
             (autoservice_users db) of
        Inl e \<Rightarrow> Inl e
      | Inr None \<Rightarrow> Inl AutoserviceUserNotFoundError
      | Inr (Some autoservice_user) \<Rightarrow> Inr autoservice_user)"

text \<open>\<^verbatim>\<open>list(AutoserviceUserPermissions)\<close>: the members of the enumeration in their order.\<close>

definition all_permissions :: "autoservice_user_permissions list" where
  "all_permissions = [autoservice_manage, autoservice_manage_provided_maintenance]"

definition create_autoservice_owner ::
  "db \<Rightarrow> autoservice \<Rightarrow> user \<Rightarrow> (error + autoservice_user) \<times> db" where
  "create_autoservice_owner db autoservice u =
     (let autoservice_user =
            \<lparr>autoservice_user_uid = user_uid u,
             autoservice_user_autoservice_id = autoservice_id autoservice,
             autoservice_user_permissions = all_permissions\<rparr>
      in case create autoservice_users_constraints autoservice_user (autoservice_users db) of
           Inl e \<Rightarrow> (Inl e, db)
         | Inr rows \<Rightarrow> (Inr autoservice_user, db\<lparr>autoservice_users := rows\<rparr>))"

definition get_autoservice_by_autoservice_id :: "db \<Rightarrow> uuid \<Rightarrow> error + autoservice" where
  "get_autoservice_by_autoservice_id db aid =
     (case get_one_or_none (\<lambda>a. autoservice_id a = aid) (autoservices db) of
        Inl e \<Rightarrow> Inl e
      | Inr None \<Rightarrow> Inl AutoserviceNotFoundError
      | Inr (Some autoservice) \<Rightarrow> Inr autoservice)"

text \<open>\<^verbatim>\<open>BaseAutoserviceService.create_autoservice\<close> and \<^verbatim>\<open>update_autoservice\<close>.\<close>

definition base_create_autoservice :: "db \<Rightarrow> autoservice \<Rightarrow> (error + autoservice) \<times> db" where
  "base_create_autoservice db autoservice =
     (case create autoservices_constraints autoservice (autoservices db) of
        Inl e \<Rightarrow> (Inl e, db)
      | Inr rows \<Rightarrow> (Inr autoservice, db\<lparr>autoservices := rows\<rparr>))"

definition set_autoservice_data :: "autoservice_update_data \<Rightarrow> autoservice \<Rightarrow> autoservice" where
  "set_autoservice_data d a =
     a\<lparr>autoservice_name :=
         (case update_autoservice_name d of Some v \<Rightarrow> v | None \<Rightarrow> autoservice_name a),
       autoservice_description :=
         (case update_autoservice_description d of
            Some v \<Rightarrow> Some v | None \<Rightarrow> autoservice_description a),
       autoservice_city :=
         (case update_autoservice_city d of Some v \<Rightarrow> v | None \<Rightarrow> autoservice_city a),
       autoservice_lat :=
         (case update_autoservice_lat d of Some v \<Rightarrow> Some v | None \<Rightarrow> autoservice_lat a)\<rparr>"

definition update_autoservice ::
  "db \<Rightarrow> uuid \<Rightarrow> autoservice_update_data \<Rightarrow> (error + autoservice) \<times> db" where
  "update_autoservice db aid changed_autoservice =
     (case update (\<lambda>a. autoservice_id a = aid) (set_autoservice_data changed_autoservice)
             (autoservices db) of
        Inl e \<Rightarrow> (Inl e, db)
      | Inr (a, rows) \<Rightarrow> (Inr a, db\<lparr>autoservices := rows\<rparr>))"

text \<open>\<^verbatim>\<open>AutoserviceService\<close>.\<close>

definition create_autoservice :: "db \<Rightarrow> autoservice \<Rightarrow> user \<Rightarrow> (error + autoservice) \<times> db" where
  "create_autoservice db autoservice u =
     (case base_create_autoservice db autoservice of
        (Inl e, db1) \<Rightarrow> (Inl e, db1)
      | (Inr autoservice, db1) \<Rightarrow>
          (case create_autoservice_owner db1 autoservice u of
             (Inl e, db2) \<Rightarrow> (Inl e, db2)
           | (Inr _, db2) \<Rightarrow> (Inr autoservice, db2)))"

definition validate_autoservice_manage_provided_maintenance_permissions ::
  "db \<Rightarrow> autoservice \<Rightarrow> user \<Rightarrow> error + unit" where
  "validate_autoservice_manage_provided_maintenance_permissions db autoservice u =
     (case get_autoservice_user_by_uid_and_autoservice_id db (user_uid u)
             (autoservice_id autoservice) of
        Inl e \<Rightarrow> Inl e
      | Inr autoservice_user \<Rightarrow>
          if autoservice_manage_provided_maintenance
               \<notin> set (autoservice_user_permissions autoservice_user)
          then Inl AutoserviceUserDoesntHavePermissionsError
          else Inr ())"

text \<open>
  The columns of \<^verbatim>\<open>Autoservice\<close> without the excluded names. The exclusion set of the
  source holds the one string \<^verbatim>\<open>"latmechanics"\<close> (two adjacent literals), which names no
  column, so \<^verbatim>\<open>lat\<close> stays; \<^verbatim>\<open>autoservice_id, itn, psrn, address, lon, created_at,
  updated_at\<close> are excluded.
\<close>

definition autoservice_update_data :: "changed_autoservice \<Rightarrow> autoservice_update_data" where
  "autoservice_update_data changed =
     \<lparr>update_autoservice_name = changed_autoservice_name changed,
      update_autoservice_description = changed_autoservice_description changed,
      update_autoservice_city = changed_autoservice_city changed,
      update_autoservice_lat = changed_autoservice_lat changed\<rparr>"

definition patch_autoservice ::
  "db \<Rightarrow> uuid \<Rightarrow> user \<Rightarrow> changed_autoservice \<Rightarrow> (error + autoservice) \<times> db" where
  "patch_autoservice db aid u changed =
     (let update_data = autoservice_update_data changed
      in case get_autoservice_by_autoservice_id db aid of
           Inl e \<Rightarrow> (Inl e, db)
         | Inr autoservice \<Rightarrow>
             (case get_autoservice_user_by_uid_and_autoservice_id db (user_uid u)
                     (autoservice_id autoservice) of
                Inl e \<Rightarrow> (Inl e, db)
              | Inr autoservice_user \<Rightarrow>
                  if autoservice_manage \<notin> set (autoservice_user_permissions autoservice_user)
                  then (Inl AutoserviceUserDoesntHavePermissionsError, db)
                  else update_autoservice db aid update_data))"

subsection \<open>\<^verbatim>\<open>services/country.py\<close>\<close>

definition get_country_by_country_id :: "db \<Rightarrow> int \<Rightarrow> error + country" where
  "get_country_by_country_id db cid =
     (case get_one_or_none (\<lambda>c. country_id c = cid) (countries db) of
        Inl e \<Rightarrow> Inl e
      | Inr None \<Rightarrow> Inl CountryNotFoundError
      | Inr (Some country) \<Rightarrow> Inr country)"

subsection \<open>\<^verbatim>\<open>services/vehicle.py\<close>\<close>

definition get_vehicle_brand_by_vehicle_brand_id :: "db \<Rightarrow> int \<Rightarrow> error + vehicle_brand" where
  "get_vehicle_brand_by_vehicle_brand_id db bid =
     (case get_one_or_none (\<lambda>b. vehicle_brand_id b = bid) (vehicle_brands db) of
        Inl e \<Rightarrow> Inl e
      | Inr None \<Rightarrow> Inl VehicleBrandNotFoundError
      | Inr (Some vehicle_brand) \<Rightarrow> Inr vehicle_brand)"

definition get_vehicle_model_by_vehicle_model_id :: "db \<Rightarrow> int \<Rightarrow> error + vehicle_model" where
  "get_vehicle_model_by_vehicle_model_id db mid =
     (case get_one_or_none (\<lambda>m. vehicle_model_id m = mid) (vehicle_models db) of
        Inl e \<Rightarrow> Inl e
      | Inr None \<Rightarrow> Inl VehicleModelNotFoundError
      | Inr (Some vehicle_model) \<Rightarrow> Inr vehicle_model)"

definition get_vehicle_generation_by_vehicle_generation_id ::
  "db \<Rightarrow> int \<Rightarrow> error + vehicle_generation" where
  "get_vehicle_generation_by_vehicle_generation_id db gid =
     (case get_one_or_none (\<lambda>g. vehicle_generation_id g = gid) (vehicle_generations db) of
        Inl e \<Rightarrow> Inl e
      | Inr None \<Rightarrow> Inl VehicleGenerationNotFoundError
      | Inr (Some vehicle_generation) \<Rightarrow> Inr vehicle_generation)"

definition validate_vehicle_params ::
  "db \<Rightarrow> int \<Rightarrow> int \<Rightarrow> int \<Rightarrow> error + vehicle_brand \<times> vehicle_model \<times> vehicle_generation" where
  "validate_vehicle_params db bid mid gid =
     (case get_vehicle_brand_by_vehicle_brand_id db bid of
        Inl e \<Rightarrow> Inl e
      | Inr vehicle_brand \<Rightarrow>
          (case get_vehicle_model_by_vehicle_model_id db mid of
             Inl e \<Rightarrow> Inl e
           | Inr vehicle_model \<Rightarrow>
               if vehicle_model_vehicle_brand_id vehicle_model \<noteq> vehicle_brand_id vehicle_brand
               then Inl VehicleModelDoesntMatchWithVehicleBrandError
               else (case get_vehicle_generation_by_vehicle_generation_id db gid of
                       Inl e \<Rightarrow> Inl e
                     | Inr vehicle_generation \<Rightarrow>
                         if vehicle_generation_vehicle_model_id vehicle_generation
                              \<noteq> vehicle_model_id vehicle_model
                         then Inl VehicleGenerationDoesntMatchWithVehicleModelError
                         else Inr (vehicle_brand, vehicle_model, vehicle_generation))))"

text \<open>\<^verbatim>\<open>BaseVehicleService.create_vehicle\<close>.\<close>

definition base_create_vehicle :: "db \<Rightarrow> vehicle \<Rightarrow> (error + vehicle) \<times> db" where
  "base_create_vehicle db vehicle =
     (case create vehicles_constraints vehicle (vehicles db) of
        Inl e \<Rightarrow> (Inl e, db)
      | Inr rows \<Rightarrow> (Inr vehicle, db\<lparr>vehicles := rows\<rparr>))"

text \<open>
  \<^verbatim>\<open>VehicleService.create_vehicle\<close>. The rows that the method attaches to the relationship
  attributes of the vehicle it returns are returned beside it.
\<close>

definition create_vehicle ::
  "db \<Rightarrow> vehicle \<Rightarrow>
   (error + vehicle \<times> vehicle_brand \<times> vehicle_model \<times> vehicle_generation \<times> customer) \<times> db" where
  "create_vehicle db vehicle =
     (case validate_vehicle_params db (vehicle_vehicle_brand_id vehicle)
             (vehicle_vehicle_model_id vehicle) (vehicle_vehicle_generation_id vehicle) of
        Inl e \<Rightarrow> (Inl e, db)
      | Inr (vehicle_brand, vehicle_model, vehicle_generation) \<Rightarrow>
          (case get_customer_by_customer_id db (vehicle_customer_id vehicle) of
             Inl e \<Rightarrow> (Inl e, db)
           | Inr customer \<Rightarrow>
               (case base_create_vehicle db vehicle of
                  (Inl e, db1) \<Rightarrow> (Inl e, db1)
                | (Inr vehicle, db1) \<Rightarrow>
                    (Inr (vehicle, vehicle_brand, vehicle_model, vehicle_generation, customer),
                     db1))))"

subsection \<open>\<^verbatim>\<open>services/maintenance.py\<close>\<close>

definition get_provided_maintenance_type_by_provided_maintenance_id ::
  "db \<Rightarrow> int \<Rightarrow> error + provided_maintenance_type" where
  "get_provided_maintenance_type_by_provided_maintenance_id db tid =
     (case get_one_or_none (\<lambda>t. provided_maintenance_type_id t = tid)
             (provided_maintenance_types db) of
        Inl e \<Rightarrow> Inl e
      | Inr None \<Rightarrow> Inl ProvidedMaintenanceTypeNotFoundError
      | Inr (Some provided_maintenance_type) \<Rightarrow> Inr provided_maintenance_type)"

definition get_provided_maintenance_by_provided_maintenance_id ::
  "db \<Rightarrow> uuid \<Rightarrow> error + provided_maintenance" where
  "get_provided_maintenance_by_provided_maintenance_id db pid =
     (case get_one_or_none (\<lambda>pm. provided_maintenance_id pm = pid) (provided_maintenances db) of
        Inl e \<Rightarrow> Inl e
      | Inr None \<Rightarrow> Inl ProvidedMaintenanceNotFoundError
      | Inr (Some provided_maintenance) \<Rightarrow> Inr provided_maintenance)"

text \<open>
  \<^verbatim>\<open>ProvidedMaintenanceVehicleBrandAssociationService.create_provided_maintenance_vehicle_brand_association\<close>
\<close>

definition association_service_create_vehicle_brand_association ::
  "db \<Rightarrow> provided_maintenance_vehicle_brand_association \<Rightarrow>
   (error + provided_maintenance_vehicle_brand_association) \<times> db" where
  "association_service_create_vehicle_brand_association db association =
     (case get_one_or_none
             (\<lambda>r. vehicle_brand_association_provided_maintenance_id r
                    = vehicle_brand_association_provided_maintenance_id association \<and>
                  vehicle_brand_association_vehicle_brand_id r
                    = vehicle_brand_association_vehicle_brand_id association)
             (provided_maintenance_vehicle_brand_associations db) of
        Inl e \<Rightarrow> (Inl e, db)
      | Inr (Some _) \<Rightarrow> (Inl ProvidedMaintenanceVehicleBrandAssociationAlreadyExistsError, db)
      | Inr None \<Rightarrow>
          (case create vehicle_brand_associations_constraints association
                  (provided_maintenance_vehicle_brand_associations db) of
             Inl e \<Rightarrow> (Inl e, db)
           | Inr rows \<Rightarrow>
               (Inr association, db\<lparr>provided_maintenance_vehicle_brand_associations := rows\<rparr>)))"

text \<open>
  \<^verbatim>\<open>ProvidedMaintenanceCountryAssociationService.create_provided_maintenance_country_association\<close>
\<close>

definition association_service_create_country_association ::
  "db \<Rightarrow> provided_maintenance_country_association \<Rightarrow>
   (error + provided_maintenance_country_association) \<times> db" where
  "association_service_create_country_association db association =
     (case get_one_or_none
             (\<lambda>r. country_association_provided_maintenance_id r
                    = country_association_provided_maintenance_id association \<and>
                  country_association_country_id r = country_association_country_id association)
             (provided_maintenance_country_associations db) of
        Inl e \<Rightarrow> (Inl e, db)
      | Inr (Some _) \<Rightarrow> (Inl ProvidedMaintenanceCountryAssociationAlreadyExistsError, db)
      | Inr None \<Rightarrow>
          (case create country_associations_constraints association
                  (provided_maintenance_country_associations db) of
             Inl e \<Rightarrow> (Inl e, db)
           | Inr rows \<Rightarrow> (Inr association, db\<lparr>provided_maintenance_country_associations := rows\<rparr>)))"

text \<open>
  \<^verbatim>\<open>ProvidedMaintenanceService\<close>. The two blocks that look the executor up,
  \<^verbatim>\<open>if provided_maintenance.mechanic_id is not None\<close> and
  \<^verbatim>\<open>if provided_maintenance.autoservice_id is not None\<close>, are a function each; they occur in
  \<^verbatim>\<open>_get_provided_maintenance_with_owner\<close> and in \<^verbatim>\<open>create_provided_maintenance\<close>, where the
  first one calls \<^verbatim>\<open>validate_mechanic_owner\<close> instead of comparing in place.
\<close>

definition owner_mechanic_block :: "db \<Rightarrow> uuid option \<Rightarrow> user \<Rightarrow> error + mechanic option" where
  "owner_mechanic_block db mechanic_id_opt u =
     (case mechanic_id_opt of
        None \<Rightarrow> Inr None
      | Some mid \<Rightarrow>
          (case get_mechanic_by_mechanic_id db mid of
             Inl e \<Rightarrow> Inl e
           | Inr mechanic \<Rightarrow>
               if mechanic_uid mechanic \<noteq> user_uid u then Inl MechanicBelongsToAnotherUserError
               else Inr (Some mechanic)))"

definition create_mechanic_block :: "db \<Rightarrow> uuid option \<Rightarrow> user \<Rightarrow> error + mechanic option" where
  "create_mechanic_block db mechanic_id_opt u =
     (case mechanic_id_opt of
        None \<Rightarrow> Inr None
      | Some mid \<Rightarrow>
          (case get_mechanic_by_mechanic_id db mid of
             Inl e \<Rightarrow> Inl e
           | Inr mechanic \<Rightarrow>
               (case validate_mechanic_owner mechanic u of
                  Inl e \<Rightarrow> Inl e
                | Inr _ \<Rightarrow> Inr (Some mechanic))))"

definition autoservice_block :: "db \<Rightarrow> uuid option \<Rightarrow> user \<Rightarrow> error + autoservice option" where
  "autoservice_block db autoservice_id_opt u =
     (case autoservice_id_opt of
        None \<Rightarrow> Inr None
      | Some aid \<Rightarrow>
          (case get_autoservice_by_autoservice_id db aid of
             Inl e \<Rightarrow> Inl e
           | Inr autoservice \<Rightarrow>
               (case validate_autoservice_manage_provided_maintenance_permissions db autoservice u of
                  Inl e \<Rightarrow> Inl e
                | Inr _ \<Rightarrow> Inr (Some autoservice))))"

definition get_provided_maintenance_with_owner ::
  "db \<Rightarrow> uuid \<Rightarrow> user \<Rightarrow> error + provided_maintenance" where
  "get_provided_maintenance_with_owner db pid u =
     (case get_provided_maintenance_by_provided_maintenance_id db pid of
        Inl e \<Rightarrow> Inl e
      | Inr provided_maintenance \<Rightarrow>
          (case owner_mechanic_block db (provided_maintenance_mechanic_id provided_maintenance) u of
             Inl e \<Rightarrow> Inl e
           | Inr _ \<Rightarrow>
               (case autoservice_block db
                       (provided_maintenance_autoservice_id provided_maintenance) u of
                  Inl e \<Rightarrow> Inl e
                | Inr _ \<Rightarrow> Inr provided_maintenance)))"

definition create_provided_maintenance ::
  "db \<Rightarrow> provided_maintenance \<Rightarrow> user \<Rightarrow> (error + provided_maintenance) \<times> db" where
  "create_provided_maintenance db provided_maintenance u =
     (case get_provided_maintenance_type_by_provided_maintenance_id db
             (provided_maintenance_provided_maintenance_type_id provided_maintenance) of
        Inl e \<Rightarrow> (Inl e, db)
      | Inr provided_maintenance_type \<Rightarrow>
          (case create_mechanic_block db (provided_maintenance_mechanic_id provided_maintenance) u of
             Inl e \<Rightarrow> (Inl e, db)
           | Inr mechanic \<Rightarrow>
               (case autoservice_block db
                       (provided_maintenance_autoservice_id provided_maintenance) u of
                  Inl e \<Rightarrow> (Inl e, db)
                | Inr autoservice \<Rightarrow>
                    (case create provided_maintenances_constraints provided_maintenance
                            (provided_maintenances db) of
                       Inl e \<Rightarrow> (Inl e, db)
                     | Inr rows \<Rightarrow>
                         (Inr provided_maintenance, db\<lparr>provided_maintenances := rows\<rparr>)))))"

definition create_provided_maintenance_country_association ::
  "db \<Rightarrow> provided_maintenance_country_association \<Rightarrow> user \<Rightarrow>
   (error + provided_maintenance_country_association) \<times> db" where
  "create_provided_maintenance_country_association db association u =
     (case get_provided_maintenance_with_owner db
             (country_association_provided_maintenance_id association) u of
        Inl e \<Rightarrow> (Inl e, db)
      | Inr _ \<Rightarrow>
          (case get_country_by_country_id db (country_association_country_id association) of
             Inl e \<Rightarrow> (Inl e, db)
           | Inr _ \<Rightarrow> association_service_create_country_association db association))"

definition create_provided_maintenance_vehicle_brand_association ::
  "db \<Rightarrow> provided_maintenance_vehicle_brand_association \<Rightarrow> user \<Rightarrow>
   (error + provided_maintenance_vehicle_brand_association) \<times> db" where
  "create_provided_maintenance_vehicle_brand_association db association u =
     (case get_provided_maintenance_with_owner db
             (vehicle_brand_association_provided_maintenance_id association) u of
        Inl e \<Rightarrow> (Inl e, db)
      | Inr _ \<Rightarrow>
          (case get_vehicle_brand_by_vehicle_brand_id db
                  (vehicle_brand_association_vehicle_brand_id association) of
             Inl e \<Rightarrow> (Inl e, db)
           | Inr _ \<Rightarrow> association_service_create_vehicle_brand_association db association))"

section \<open>Controllers\<close>

text \<open>
  The \<^verbatim>\<open>except\<close> clauses of the handlers in \<^verbatim>\<open>api/v1\<close> turn a service exception into an
  HTTP exception; an exception that no clause names passes through (\<^const>\<open>None\<close>).
\<close>

datatype http_exception = NotFoundException | PermissionDeniedException | ConflictException

text \<open>\<^verbatim>\<open>CustomerController.patch_customer\<close>\<close>

definition patch_customer_except :: "error \<Rightarrow> http_exception option" where
  "patch_customer_except e =
     (if e = CustomerNotFoundError then Some NotFoundException
      else if e = CustomerBelongsToAnotherUserError then Some PermissionDeniedException
      else None)"

text \<open>\<^verbatim>\<open>MechanicController.patch_mechanic\<close>\<close>

definition patch_mechanic_except :: "error \<Rightarrow> http_exception option" where
  "patch_mechanic_except e =
     (if e = MechanicNotFoundError then Some NotFoundException
      else if e = MechanicBelongsToAnotherUserError then Some PermissionDeniedException
      else None)"

text \<open>\<^verbatim>\<open>AutoserviceController.patch_autoservice\<close>\<close>

definition patch_autoservice_except :: "error \<Rightarrow> http_exception option" where
  "patch_autoservice_except e =
     (if e = AutoserviceNotFoundError then Some NotFoundException
      else if e \<in> {AutoserviceUserNotFoundError, AutoserviceUserDoesntHavePermissionsError}
      then Some PermissionDeniedException
      else None)"


section \<open>Requests and reachable states\<close>

text \<open>
  The declared constraints as a predicate on the state: what the database guarantees of
  its own content at any time.
\<close>

definition consistent :: "db \<Rightarrow> bool" where
  "consistent db \<longleftrightarrow>
     distinct (map customer_id (customers db)) \<and>
     distinct (map customer_uid (customers db)) \<and>
     distinct (map mechanic_id (mechanics db)) \<and>
     distinct (map mechanic_uid (mechanics db)) \<and>
     distinct (map autoservice_id (autoservices db)) \<and>
     distinct (map autoservice_user_key (autoservice_users db)) \<and>
     distinct (map country_id (countries db)) \<and>
     distinct (map vehicle_brand_id (vehicle_brands db)) \<and>
     distinct (map vehicle_model_id (vehicle_models db)) \<and>
     distinct (map vehicle_generation_id (vehicle_generations db)) \<and>
     distinct (map vehicle_id (vehicles db)) \<and>
     distinct (filter (\<lambda>vin. vin \<noteq> None) (map vehicle_vin (vehicles db))) \<and>
     distinct (map provided_maintenance_type_id (provided_maintenance_types db)) \<and>
     distinct (map provided_maintenance_id (provided_maintenances db)) \<and>
     list_all check_mechanic_or_autoservice (provided_maintenances db) \<and>
     distinct (map country_association_key (provided_maintenance_country_associations db)) \<and>
     distinct (map vehicle_brand_association_key
                 (provided_maintenance_vehicle_brand_associations db))"

text \<open>
  Before the first request the tables the services write are empty; the reference tables
  (countries, vehicle brands, models and generations, maintenance types) hold whatever was
  loaded into them, under their primary keys.
\<close>

definition initial :: "db \<Rightarrow> bool" where
  "initial db \<longleftrightarrow>
     customers db = [] \<and> mechanics db = [] \<and> autoservices db = [] \<and>
     autoservice_users db = [] \<and> vehicles db = [] \<and> provided_maintenances db = [] \<and>
     provided_maintenance_country_associations db = [] \<and>
     provided_maintenance_vehicle_brand_associations db = [] \<and>
     distinct (map country_id (countries db)) \<and>
     distinct (map vehicle_brand_id (vehicle_brands db)) \<and>
     distinct (map vehicle_model_id (vehicle_models db)) \<and>
     distinct (map vehicle_generation_id (vehicle_generations db)) \<and>
     distinct (map provided_maintenance_type_id (provided_maintenance_types db))"

text \<open>The writing handlers of \<^verbatim>\<open>api/v1\<close>, each with the arguments it passes to its service.\<close>

datatype request =
    CreateCustomer customer user
  | PatchCustomer uuid changed_customer user
  | CreateMechanic mechanic user
  | PatchMechanic uuid changed_mechanic user
  | CreateAutoservice autoservice user
  | PatchAutoservice uuid user changed_autoservice
  | CreateVehicle vehicle
  | CreateProvidedMaintenance provided_maintenance user
  | CreateProvidedMaintenanceCountryAssociation provided_maintenance_country_association user
  | CreateProvidedMaintenanceVehicleBrandAssociation
      provided_maintenance_vehicle_brand_association user

fun handle :: "db \<Rightarrow> request \<Rightarrow> db" where
  "handle db (CreateCustomer customer u) = snd (create_customer db customer u)"
| "handle db (PatchCustomer cid changed u) = snd (patch_customer db cid changed u)"
| "handle db (CreateMechanic mechanic u) = snd (create_mechanic db mechanic u)"
| "handle db (PatchMechanic mid changed u) = snd (patch_mechanic db mid changed u)"
| "handle db (CreateAutoservice autoservice u) = snd (create_autoservice db autoservice u)"
| "handle db (PatchAutoservice aid u changed) = snd (patch_autoservice db aid u changed)"
| "handle db (CreateVehicle vehicle) = snd (create_vehicle db vehicle)"
| "handle db (CreateProvidedMaintenance pm u) = snd (create_provided_maintenance db pm u)"
| "handle db (CreateProvidedMaintenanceCountryAssociation association u) =
     snd (create_provided_maintenance_country_association db association u)"
| "handle db (CreateProvidedMaintenanceVehicleBrandAssociation association u) =
     snd (create_provided_maintenance_vehicle_brand_association db association u)"

text \<open>
  The states the service can be in: an initial one, and the state any request leaves
  behind. A request that fails and is rolled back leaves the state it started from, which
  is reachable already.
\<close>

inductive reachable :: "db \<Rightarrow> bool" where
  reachable_initial: "initial db \<Longrightarrow> reachable db"
| reachable_handle: "reachable db \<Longrightarrow> reachable (handle db rq)"

text \<open>A user holds a permission on an autoservice when a row of \<^verbatim>\<open>AutoserviceUser\<close> says so.\<close>

definition holds_permission :: "db \<Rightarrow> uuid \<Rightarrow> uuid \<Rightarrow> autoservice_user_permissions \<Rightarrow> bool" where
  "holds_permission db uid aid permission \<longleftrightarrow>
     (\<exists>r \<in> set (autoservice_users db).
        autoservice_user_uid r = uid \<and> autoservice_user_autoservice_id r = aid \<and>
        permission \<in> set (autoservice_user_permissions r))"

text \<open>
  The two format notions of the specification. A standard VIN: 17 characters, each a digit
  or an upper-case Latin letter other than I, O and Q. A string of digits: every character
  is one of \<^verbatim>\<open>0\<close> to \<^verbatim>\<open>9\<close>.
\<close>

definition standard_vin :: "string \<Rightarrow> bool" where
  "standard_vin s \<longleftrightarrow>
     length s = 17 \<and>
     (\<forall>c \<in> set s. c \<in> set ''0123456789'' \<or>
                   (c \<in> set ''ABCDEFGHIJKLMNOPQRSTUVWXYZ'' \<and> c \<notin> set ''IOQ''))"

definition all_digits :: "string \<Rightarrow> bool" where
  "all_digits s \<longleftrightarrow> (\<forall>c \<in> set s. c \<in> set ''0123456789'')"

section \<open>Example data\<close>

text \<open>A small consistent database and three PATCH bodies, in the manner of the fixtures of
  \<^verbatim>\<open>tests/services\<close>.\<close>

definition demo_customer :: customer where
  "demo_customer =
     \<lparr>customer_id = 1, customer_name = ''Test'', customer_city = None, customer_uid = 10,
      customer_updated_at = None, customer_created_at = 0\<rparr>"

definition demo_mechanic :: mechanic where
  "demo_mechanic =
     \<lparr>mechanic_id = 2, mechanic_name = ''Test'', mechanic_description = None,
      mechanic_city = ''Test'', mechanic_address = None, mechanic_lon = None,
      mechanic_lat = None, mechanic_private = True, mechanic_mobile = False,
      mechanic_uid = 10, mechanic_updated_at = None, mechanic_created_at = 0\<rparr>"

definition demo_autoservice :: autoservice where
  "demo_autoservice =
     \<lparr>autoservice_id = 3, autoservice_name = ''Test'', autoservice_description = None,
      autoservice_itn = ''111111111111'', autoservice_psrn = ''1111111111111'',
      autoservice_city = ''Test'', autoservice_address = ''Test'', autoservice_lon = None,
      autoservice_lat = None, autoservice_updated_at = None, autoservice_created_at = 0\<rparr>"

definition demo_db :: db where
  "demo_db =
     \<lparr>customers = [demo_customer],
      mechanics = [demo_mechanic],
      autoservices = [demo_autoservice],
      autoservice_users =
        [\<lparr>autoservice_user_uid = 10, autoservice_user_autoservice_id = 3,
          autoservice_user_permissions = all_permissions\<rparr>,
         \<lparr>autoservice_user_uid = 11, autoservice_user_autoservice_id = 3,
          autoservice_user_permissions = []\<rparr>],
      countries =
        [\<lparr>country_id = 1, country_name = ''Test''\<rparr>,
         \<lparr>country_id = 2, country_name = ''Other''\<rparr>],
      vehicle_brands =
        [\<lparr>vehicle_brand_id = 1, vehicle_brand_name = ''Test'', vehicle_brand_popular = False,
          vehicle_brand_country_id = 1\<rparr>,
         \<lparr>vehicle_brand_id = 2, vehicle_brand_name = ''Other'', vehicle_brand_popular = False,
          vehicle_brand_country_id = 1\<rparr>],
      vehicle_models =
        [\<lparr>vehicle_model_id = 1, vehicle_model_name = ''Test'', vehicle_model_vehicle_brand_id = 1\<rparr>,
         \<lparr>vehicle_model_id = 2, vehicle_model_name = ''Other'', vehicle_model_vehicle_brand_id = 2\<rparr>],
      vehicle_generations =
        [\<lparr>vehicle_generation_id = 1, vehicle_generation_name = ''Test'',
          vehicle_generation_start_year_production = 2000,
          vehicle_generation_end_year_production = None,
          vehicle_generation_vehicle_model_id = 1\<rparr>,
         \<lparr>vehicle_generation_id = 2, vehicle_generation_name = ''Other'',
          vehicle_generation_start_year_production = 2000,
          vehicle_generation_end_year_production = None,
          vehicle_generation_vehicle_model_id = 2\<rparr>],
      vehicles = [],
      provided_maintenance_types =
        [\<lparr>provided_maintenance_type_id = 1, provided_maintenance_type_name = ''Test'',
          provided_maintenance_type_category_id = 1\<rparr>],
      provided_maintenances =
        [\<lparr>provided_maintenance_id = 5, provided_maintenance_price = 100,
          provided_maintenance_description = None,
          provided_maintenance_provided_maintenance_type_id = 1,
          provided_maintenance_mechanic_id = Some 2,
          provided_maintenance_autoservice_id = None\<rparr>],
      provided_maintenance_country_associations =
        [\<lparr>country_association_provided_maintenance_id = 5, country_association_country_id = 1\<rparr>],
      provided_maintenance_vehicle_brand_associations =
        [\<lparr>vehicle_brand_association_provided_maintenance_id = 5,
          vehicle_brand_association_vehicle_brand_id = 1\<rparr>]\<rparr>"

definition demo_changed_customer :: changed_customer where
  "demo_changed_customer =
     \<lparr>changed_customer_id = Some 1, changed_customer_name = Some ''Patch test'',
      changed_customer_city = None, changed_customer_uid = Some 99,
      changed_customer_updated_at = None, changed_customer_created_at = Some 0\<rparr>"

definition demo_changed_mechanic :: changed_mechanic where
  "demo_changed_mechanic =
     \<lparr>changed_mechanic_id = None, changed_mechanic_name = Some ''Patch test'',
      changed_mechanic_description = None, changed_mechanic_city = None,
      changed_mechanic_address = None, changed_mechanic_lon = None,
      changed_mechanic_lat = None, changed_mechanic_private = None,
      changed_mechanic_mobile = Some True, changed_mechanic_uid = None,
      changed_mechanic_updated_at = None, changed_mechanic_created_at = None\<rparr>"

definition demo_changed_autoservice :: changed_autoservice where
  "demo_changed_autoservice =
     \<lparr>changed_autoservice_id = None, changed_autoservice_name = Some ''Patch test'',
      changed_autoservice_description = None, changed_autoservice_itn = Some ''2222222222'',
      changed_autoservice_psrn = None, changed_autoservice_city = None,
      changed_autoservice_address = None, changed_autoservice_lon = None,
      changed_autoservice_lat = None, changed_autoservice_updated_at = None,
      changed_autoservice_created_at = None\<rparr>"

text \<open>The row that \<^verbatim>\<open>create_autoservice_owner\<close> builds for the creator of an autoservice.\<close>

definition owner_row :: "autoservice \<Rightarrow> user \<Rightarrow> autoservice_user" where
  "owner_row a u =
     \<lparr>autoservice_user_uid = user_uid u, autoservice_user_autoservice_id = autoservice_id a,
      autoservice_user_permissions = all_permissions\<rparr>"

text \<open>The same database before the first request.\<close>

definition demo_initial_db :: db where
  "demo_initial_db =
     demo_db\<lparr>customers := [], mechanics := [], autoservices := [], autoservice_users := [],
             provided_maintenances := [], provided_maintenance_country_associations := [],
             provided_maintenance_vehicle_brand_associations := []\<rparr>"

text \<open>
  A run of requests from the empty tables, and the state it ends in: a user registers as
  customer and as mechanic, creates an autoservice, offers a maintenance and attaches a
  country and a vehicle brand to it.
\<close>

definition demo_provided_maintenance :: provided_maintenance where
  "demo_provided_maintenance =
     \<lparr>provided_maintenance_id = 5, provided_maintenance_price = 100,
      provided_maintenance_description = None,
      provided_maintenance_provided_maintenance_type_id = 1,
      provided_maintenance_mechanic_id = Some 2,
      provided_maintenance_autoservice_id = Some 3\<rparr>"

definition demo_requests :: "request list" where
  "demo_requests =
     [CreateCustomer demo_customer \<lparr>user_uid = 10\<rparr>,
      CreateMechanic demo_mechanic \<lparr>user_uid = 10\<rparr>,
      CreateAutoservice demo_autoservice \<lparr>user_uid = 10\<rparr>,
      CreateProvidedMaintenance demo_provided_maintenance \<lparr>user_uid = 10\<rparr>,
      CreateProvidedMaintenanceCountryAssociation
        \<lparr>country_association_provided_maintenance_id = 5, country_association_country_id = 1\<rparr>
        \<lparr>user_uid = 10\<rparr>,
      CreateProvidedMaintenanceVehicleBrandAssociation
        \<lparr>vehicle_brand_association_provided_maintenance_id = 5,
         vehicle_brand_association_vehicle_brand_id = 1\<rparr>
        \<lparr>user_uid = 10\<rparr>]"

definition demo_reached_db :: db where
  "demo_reached_db =
     demo_initial_db
       \<lparr>customers := [demo_customer],
        mechanics := [demo_mechanic],
        autoservices := [demo_autoservice],
        autoservice_users := [owner_row demo_autoservice \<lparr>user_uid = 10\<rparr>],
        provided_maintenances := [demo_provided_maintenance],
        provided_maintenance_country_associations :=
          [\<lparr>country_association_provided_maintenance_id = 5,
            country_association_country_id = 1\<rparr>],
        provided_maintenance_vehicle_brand_associations :=
          [\<lparr>vehicle_brand_association_provided_maintenance_id = 5,
            vehicle_brand_association_vehicle_brand_id = 1\<rparr>]\<rparr>"

definition demo_country_association :: provided_maintenance_country_association where
  "demo_country_association =
     \<lparr>country_association_provided_maintenance_id = 5, country_association_country_id = 1\<rparr>"

definition demo_vehicle_brand_association :: provided_maintenance_vehicle_brand_association where
  "demo_vehicle_brand_association =
     \<lparr>vehicle_brand_association_provided_maintenance_id = 5,
      vehicle_brand_association_vehicle_brand_id = 1\<rparr>"

text \<open>The state after the creation of the autoservice from the empty tables.\<close>

definition demo_autoservice_created_db :: db where
  "demo_autoservice_created_db =
     demo_initial_db
       \<lparr>autoservices := [demo_autoservice],
        autoservice_users := [owner_row demo_autoservice \<lparr>user_uid = 10\<rparr>]\<rparr>"





section \<open>Properties of the validators\<close>

lemma upper_char_no_newline: "\<not> is_space c \<Longrightarrow> CHR 0x0A \<notin> set (upper_char c)"
  by (auto simp: upper_char_def is_space_def whitespace_chars_def upper_chars_def
      split: option.splits dest!: map_of_SomeD set_zip_rightD)

lemma upper_sub_whitespace_no_newline: "CHR 0x0A \<notin> set (upper (sub_whitespace s))"
  using upper_char_no_newline by (auto simp: upper_def sub_whitespace_def)

lemma at_dollar_no_newline: "CHR 0x0A \<notin> set s \<Longrightarrow> at_dollar (drop n s) \<longleftrightarrow> length s \<le> n"
  by (auto simp: at_dollar_def dest: in_set_dropD intro: in_set_dropD[of _ n s])

lemma repeat_class_no_newline:
  "CHR 0x0A \<notin> set s \<Longrightarrow>
   repeat_class cls n s \<and> at_dollar (drop n s) \<longleftrightarrow> (\<forall>c \<in> set s. cls c) \<and> length s = n"
  unfolding repeat_class_def list_all_iff
  by (auto simp: at_dollar_no_newline)

text \<open>The character class of the VIN pattern is the alphabet of a standard VIN.\<close>

lemma vin_chars_filter:
  "vin_chars = filter (\<lambda>c. c \<notin> set ''IOQ'') ''ABCDEFGHIJKLMNOPQRSTUVWXYZ'' @ ''0123456789''"
  by (simp add: vin_chars_def)

lemma is_vin_char_standard:
  "is_vin_char c \<longleftrightarrow> c \<in> set ''0123456789'' \<or>
                   (c \<in> set ''ABCDEFGHIJKLMNOPQRSTUVWXYZ'' \<and> c \<notin> set ''IOQ'')"
  unfolding is_vin_char_def vin_chars_filter set_append set_filter by blast

lemma match_vin_no_newline: "CHR 0x0A \<notin> set s \<Longrightarrow> match_vin s \<longleftrightarrow> standard_vin s"
  unfolding match_vin_def repeat_class_def standard_vin_def list_all_iff
    is_vin_char_standard[symmetric]
  by (auto simp: at_dollar_no_newline)

lemma normalise_example: "upper (sub_whitespace ''wvw zzz1jz3w386752'') = ''WVWZZZ1JZ3W386752''"
  by code_simp

lemma standard_example: "standard_vin ''WVWZZZ1JZ3W386752''"
  by code_simp

text \<open>
  C6, as the code has it. \<^verbatim>\<open>validate_vin\<close> first deletes all whitespace from the input and
  converts it to upper case; it accepts exactly when the string so normalised is a standard
  VIN, returns the normalised string, and raises the client error otherwise.
\<close>

theorem validate_vin_normalises_then_checks:
  "validate_vin (Some s) =
     (if standard_vin (upper (sub_whitespace s)) then Inr (Some (upper (sub_whitespace s)))
      else Inl (ClientException VinFormat))"
  by (simp add: validate_vin_def Let_def match_vin_no_newline[OF upper_sub_whitespace_no_newline])

theorem validate_vin_normalises_then_checks_witness:
  "standard_vin (upper (sub_whitespace ''wvw zzz1jz3w386752'')) \<and>
   validate_vin (Some ''wvw zzz1jz3w386752'') = Inr (Some ''WVWZZZ1JZ3W386752'')"
proof -
  have s: "standard_vin (upper (sub_whitespace ''wvw zzz1jz3w386752''))"
    unfolding normalise_example by (rule standard_example)
  have "validate_vin (Some ''wvw zzz1jz3w386752'')
          = Inr (Some (upper (sub_whitespace ''wvw zzz1jz3w386752'')))"
    using validate_vin_normalises_then_checks [of "''wvw zzz1jz3w386752''"] s
    by (simp only: if_True)
  then show ?thesis
    using s unfolding normalise_example by blast
qed

text \<open>
  C6, as the claim states it, fails: an input of 18 characters with lower-case letters and
  a space is no standard VIN, and \<^verbatim>\<open>validate_vin\<close> accepts it.
\<close>

theorem validate_vin_accepts_lower_case_and_spaces:
  "validate_vin (Some ''wvw zzz1jz3w386752'') = Inr (Some ''WVWZZZ1JZ3W386752'') \<and>
   \<not> standard_vin ''wvw zzz1jz3w386752''"
  by code_simp

text \<open>
  C7 at the failing inputs. \<^verbatim>\<open>validate_itn\<close> accepts ten digits followed by a newline and
  \<^verbatim>\<open>validate_psrn\<close> accepts thirteen digits followed by a newline, although the last
  character of either string is no digit: \<^verbatim>\<open>$\<close> matches before a final newline.
\<close>

theorem validate_itn_psrn_accept_trailing_newline:
  "validate_itn (''1234567890'' @ [CHR 0x0A]) = Inr (''1234567890'' @ [CHR 0x0A]) \<and>
   validate_psrn (''1234567890123'' @ [CHR 0x0A]) = Inr (''1234567890123'' @ [CHR 0x0A]) \<and>
   \<not> is_digit (last (''1234567890'' @ [CHR 0x0A])) \<and>
   \<not> is_digit (last (''1234567890123'' @ [CHR 0x0A]))"
  by code_simp

text \<open>On a string without a newline the two validators do what the docstrings say.\<close>

lemma all_digits_is_digit: "all_digits s \<longleftrightarrow> (\<forall>c \<in> set s. is_digit c)"
  unfolding all_digits_def is_digit_def digit_chars_def by (rule refl)

lemma validate_psrn_without_newline:
  "CHR 0x0A \<notin> set s \<Longrightarrow>
   validate_psrn s =
     (if all_digits s \<and> length s = 13 then Inr s else Inl (ClientException PsrnFormat))"
  using repeat_class_no_newline[of s is_digit 13]
  unfolding all_digits_is_digit validate_psrn_def match_psrn_def by simp

lemma repeat_class_split:
  "repeat_class cls 10 s \<and> repeat_class cls 2 (drop 10 s) \<longleftrightarrow> repeat_class cls 12 s"
proof -
  have "take 12 s = take 10 s @ take 2 (drop 10 s)"
    using take_add[of 10 2 s] by simp
  then show ?thesis by (auto simp: repeat_class_def)
qed

lemma validate_itn_without_newline:
  "CHR 0x0A \<notin> set s \<Longrightarrow>
   validate_itn s =
     (if all_digits s \<and> (length s = 10 \<or> length s = 12) then Inr s
      else Inl (ClientException ItnFormat))"
proof -
  assume n: "CHR 0x0A \<notin> set s"
  have a: "repeat_class is_digit 10 s \<and> at_dollar (drop 10 s) \<longleftrightarrow> all_digits s \<and> length s = 10"
    unfolding all_digits_is_digit using n by (rule repeat_class_no_newline)
  have b: "repeat_class is_digit 12 s \<and> at_dollar (drop 12 s) \<longleftrightarrow> all_digits s \<and> length s = 12"
    unfolding all_digits_is_digit using n by (rule repeat_class_no_newline)
  have "match_itn s \<longleftrightarrow>
          (repeat_class is_digit 12 s \<and> at_dollar (drop 12 s)) \<or>
          (repeat_class is_digit 10 s \<and> at_dollar (drop 10 s))"
    unfolding match_itn_def using repeat_class_split[of is_digit s] by blast
  then have "match_itn s \<longleftrightarrow> all_digits s \<and> (length s = 10 \<or> length s = 12)"
    using a b by blast
  then show ?thesis by (simp add: validate_itn_def)
qed

text \<open>
  C8. The name validators of \<^verbatim>\<open>Customer\<close> and \<^verbatim>\<open>Mechanic\<close> return the name when its
  length is between 2 and 150 inclusive, and raise a client error when it is shorter or
  longer.
\<close>

theorem validate_name_length:
  "customer_validate_name name =
     (if 2 \<le> length name \<and> length name \<le> 150 then Inr name
      else Inl (ClientException (if length name < 2 then NameTooShort else NameTooLong))) \<and>
   mechanic_validate_name name =
     (if 2 \<le> length name \<and> length name \<le> 150 then Inr name
      else Inl (ClientException (if length name < 2 then NameTooShort else NameTooLong)))"
  by (simp add: customer_validate_name_def mechanic_validate_name_def)

theorem validate_name_length_witness:
  "customer_validate_name ''Test'' = Inr ''Test'' \<and>
   mechanic_validate_name ''Test'' = Inr ''Test'' \<and>
   customer_validate_name ''T'' = Inl (ClientException NameTooShort) \<and>
   mechanic_validate_name (replicate 151 CHR ''a'') = Inl (ClientException NameTooLong)"
  using validate_name_length [of "''Test''"] validate_name_length [of "''T''"]
    validate_name_length [of "replicate 151 CHR ''a''"]
  by simp

section \<open>Properties of the repository operations\<close>

lemma get_one_or_none_find:
  "distinct (map key rows) \<Longrightarrow> get_one_or_none (\<lambda>x. key x = k) rows = Inr (find (\<lambda>x. key x = k) rows)"
proof (induction rows)
  case Nil
  then show ?case by (simp add: get_one_or_none_def)
next
  case (Cons x xs)
  show ?case
  proof (cases "key x = k")
    case True
    from Cons.prems True have "k \<notin> key ` set xs" by auto
    then have "filter (\<lambda>y. key y = k) xs = []"
      by (auto simp: filter_empty_conv)
    with True show ?thesis by (simp add: get_one_or_none_def)
  next
    case False
    with Cons show ?thesis by (simp add: get_one_or_none_def)
  qed
qed

lemma get_one_or_none_Some: "get_one_or_none p rows = Inr (Some r) \<Longrightarrow> r \<in> set rows \<and> p r"
proof -
  assume a: "get_one_or_none p rows = Inr (Some r)"
  then have "filter p rows = [r]"
    by (auto simp: get_one_or_none_def split: list.splits)
  then have "r \<in> set (filter p rows)" by simp
  then show ?thesis by simp
qed

lemma get_one_or_none_None: "get_one_or_none p rows = Inr None \<longleftrightarrow> (\<forall>r \<in> set rows. \<not> p r)"
proof -
  have "filter p rows = [] \<longleftrightarrow> (\<forall>r \<in> set rows. \<not> p r)"
    by (simp add: filter_empty_conv)
  moreover have "get_one_or_none p rows = Inr None \<longleftrightarrow> filter p rows = []"
    by (simp add: get_one_or_none_def split: list.splits)
  ultimately show ?thesis by simp
qed

lemma get_one_or_none_Inl: "get_one_or_none p rows = Inl e \<Longrightarrow> e = MultipleResultsFound"
  by (auto simp: get_one_or_none_def split: list.splits)

lemma get_one_or_none_fresh:
  "\<forall>r \<in> set rows. \<not> p r \<Longrightarrow> p d \<Longrightarrow> get_one_or_none p (rows @ [d]) = Inr (Some d)"
  by (simp add: get_one_or_none_def filter_empty_conv[THEN iffD2])

lemma find_key_member:
  "distinct (map key rows) \<Longrightarrow> r \<in> set rows \<Longrightarrow> find (\<lambda>x. key x = key r) rows = Some r"
  by (induction rows) (auto simp: rev_image_eqI)


lemma find_SomeD: "find p rows = Some r \<Longrightarrow> r \<in> set rows \<and> p r"
  by (auto simp: find_Some_iff)

lemma map_key_update:
  "(\<And>x. key (f x) = key x) \<Longrightarrow> map key (map (\<lambda>x. if p x then f x else x) rows) = map key rows"
  by (induction rows) auto

lemma create_Inr: "create c d rows = Inr rows' \<longleftrightarrow> c d rows \<and> rows' = rows @ [d]"
  by (auto simp: create_def)

lemma create_Inl: "create c d rows = Inl e \<longleftrightarrow> \<not> c d rows \<and> e = IntegrityError"
  by (auto simp: create_def)

lemma autoservice_user_criterion:
  "(\<lambda>r. autoservice_user_uid r = uid \<and> autoservice_user_autoservice_id r = aid)
     = (\<lambda>r. autoservice_user_key r = (uid, aid))"
  by (simp add: autoservice_user_key_def fun_eq_iff)

lemma country_association_criterion:
  "(\<lambda>r. country_association_provided_maintenance_id r = pid \<and> country_association_country_id r = cid)
     = (\<lambda>r. country_association_key r = (pid, cid))"
  by (simp add: country_association_key_def fun_eq_iff)

lemma vehicle_brand_association_criterion:
  "(\<lambda>r. vehicle_brand_association_provided_maintenance_id r = pid \<and>
        vehicle_brand_association_vehicle_brand_id r = bid)
     = (\<lambda>r. vehicle_brand_association_key r = (pid, bid))"
  by (simp add: vehicle_brand_association_key_def fun_eq_iff)

text \<open>
  In a consistent database a lookup by key is \<^const>\<open>find\<close>: it never meets two rows.
\<close>

lemma get_customer_find:
  "consistent db \<Longrightarrow> get_customer_by_customer_id db cid =
     (case find (\<lambda>c. customer_id c = cid) (customers db) of
        None \<Rightarrow> Inl CustomerNotFoundError | Some c \<Rightarrow> Inr c)"
  by (simp add: get_customer_by_customer_id_def consistent_def get_one_or_none_find split: option.splits)

lemma get_mechanic_find:
  "consistent db \<Longrightarrow> get_mechanic_by_mechanic_id db mid =
     (case find (\<lambda>m. mechanic_id m = mid) (mechanics db) of
        None \<Rightarrow> Inl MechanicNotFoundError | Some m \<Rightarrow> Inr m)"
  by (simp add: get_mechanic_by_mechanic_id_def consistent_def get_one_or_none_find split: option.splits)

lemma get_autoservice_find:
  "consistent db \<Longrightarrow> get_autoservice_by_autoservice_id db aid =
     (case find (\<lambda>a. autoservice_id a = aid) (autoservices db) of
        None \<Rightarrow> Inl AutoserviceNotFoundError | Some a \<Rightarrow> Inr a)"
  by (simp add: get_autoservice_by_autoservice_id_def consistent_def get_one_or_none_find split: option.splits)

lemma get_autoservice_user_find:
  "consistent db \<Longrightarrow> get_autoservice_user_by_uid_and_autoservice_id db uid aid =
     (case find (\<lambda>r. autoservice_user_key r = (uid, aid)) (autoservice_users db) of
        None \<Rightarrow> Inl AutoserviceUserNotFoundError | Some r \<Rightarrow> Inr r)"
  by (simp add: get_autoservice_user_by_uid_and_autoservice_id_def consistent_def
      autoservice_user_criterion get_one_or_none_find split: option.splits)

lemma get_vehicle_brand_find:
  "consistent db \<Longrightarrow> get_vehicle_brand_by_vehicle_brand_id db bid =
     (case find (\<lambda>b. vehicle_brand_id b = bid) (vehicle_brands db) of
        None \<Rightarrow> Inl VehicleBrandNotFoundError | Some b \<Rightarrow> Inr b)"
  by (simp add: get_vehicle_brand_by_vehicle_brand_id_def consistent_def get_one_or_none_find split: option.splits)

lemma get_vehicle_model_find:
  "consistent db \<Longrightarrow> get_vehicle_model_by_vehicle_model_id db mid =
     (case find (\<lambda>m. vehicle_model_id m = mid) (vehicle_models db) of
        None \<Rightarrow> Inl VehicleModelNotFoundError | Some m \<Rightarrow> Inr m)"
  by (simp add: get_vehicle_model_by_vehicle_model_id_def consistent_def get_one_or_none_find split: option.splits)

lemma get_vehicle_generation_find:
  "consistent db \<Longrightarrow> get_vehicle_generation_by_vehicle_generation_id db gid =
     (case find (\<lambda>g. vehicle_generation_id g = gid) (vehicle_generations db) of
        None \<Rightarrow> Inl VehicleGenerationNotFoundError | Some g \<Rightarrow> Inr g)"
  by (simp add: get_vehicle_generation_by_vehicle_generation_id_def consistent_def get_one_or_none_find split: option.splits)



lemma get_country_find:
  "consistent db \<Longrightarrow> get_country_by_country_id db cid =
     (case find (\<lambda>c. country_id c = cid) (countries db) of
        None \<Rightarrow> Inl CountryNotFoundError | Some c \<Rightarrow> Inr c)"
  by (simp add: get_country_by_country_id_def consistent_def get_one_or_none_find split: option.splits)

lemma update_key:
  "distinct (map key rows) \<Longrightarrow> r \<in> set rows \<Longrightarrow>
   update (\<lambda>x. key x = key r) f rows =
     Inr (f r, map (\<lambda>x. if key x = key r then f x else x) rows)"
  by (simp add: update_def get_one_or_none_find find_key_member)

lemma autoservice_user_key_eq:
  "autoservice_user_key r = (uid, aid) \<longleftrightarrow>
     autoservice_user_uid r = uid \<and> autoservice_user_autoservice_id r = aid"
  by (simp add: autoservice_user_key_def)

lemma holds_permission_find:
  assumes "consistent db"
  shows "holds_permission db uid aid p \<longleftrightarrow>
     (case find (\<lambda>r. autoservice_user_key r = (uid, aid)) (autoservice_users db) of
        None \<Rightarrow> False | Some r \<Rightarrow> p \<in> set (autoservice_user_permissions r))"
proof -
  from assms have d: "distinct (map autoservice_user_key (autoservice_users db))"
    by (simp add: consistent_def)
  show ?thesis
  proof (cases "find (\<lambda>r. autoservice_user_key r = (uid, aid)) (autoservice_users db)")
    case None
    then have n: "\<forall>r \<in> set (autoservice_users db). autoservice_user_key r \<noteq> (uid, aid)"
      by (simp add: find_None_iff)
    have "\<not> holds_permission db uid aid p"
      unfolding holds_permission_def using n autoservice_user_key_eq by blast
    then show ?thesis unfolding None by simp
  next
    case (Some r)
    have r: "r \<in> set (autoservice_users db)" "autoservice_user_key r = (uid, aid)"
      using find_SomeD[OF Some] by blast+
    have u: "r' = r"
      if "r' \<in> set (autoservice_users db)" "autoservice_user_key r' = (uid, aid)" for r'
    proof -
      have "find (\<lambda>x. autoservice_user_key x = autoservice_user_key r') (autoservice_users db)
              = Some r'"
        using d that(1) by (rule find_key_member)
      then have "Some r = Some r'" unfolding that(2) Some .
      then show ?thesis by simp
    qed
    have "holds_permission db uid aid p \<longleftrightarrow> p \<in> set (autoservice_user_permissions r)"
    proof
      assume "holds_permission db uid aid p"
      then obtain r' where r': "r' \<in> set (autoservice_users db)"
          "autoservice_user_key r' = (uid, aid)" "p \<in> set (autoservice_user_permissions r')"
        unfolding holds_permission_def autoservice_user_key_eq by blast
      then have "r' = r" using u by blast
      then show "p \<in> set (autoservice_user_permissions r)" using r'(3) by simp
    next
      assume "p \<in> set (autoservice_user_permissions r)"
      then show "holds_permission db uid aid p"
        unfolding holds_permission_def using r autoservice_user_key_eq by blast
    qed
    then show ?thesis unfolding Some by simp
  qed
qed

section \<open>Ownership and permission checks of the PATCH methods\<close>

lemma patch_customer_stored:
  assumes "consistent db" "customer \<in> set (customers db)"
  shows "patch_customer db (customer_id customer) changed u =
     (if customer_uid customer = user_uid u
      then (Inr (set_customer_data (customer_update_data changed) customer),
            db\<lparr>customers := map (\<lambda>c. if customer_id c = customer_id customer
                                     then set_customer_data (customer_update_data changed) c else c)
                                (customers db)\<rparr>)
      else (Inl CustomerBelongsToAnotherUserError, db))"
proof -
  from assms have d: "distinct (map customer_id (customers db))" by (simp add: consistent_def)
  have g: "get_customer_by_customer_id db (customer_id customer) = Inr customer"
    using assms d by (simp add: get_customer_find find_key_member)
  show ?thesis
    using update_key[OF d assms(2)] by (simp add: patch_customer_def g)
qed

lemma patch_mechanic_stored:
  assumes "consistent db" "mechanic \<in> set (mechanics db)"
  shows "patch_mechanic db (mechanic_id mechanic) changed u =
     (if mechanic_uid mechanic = user_uid u
      then (Inr (set_mechanic_data (mechanic_update_data changed) mechanic),
            db\<lparr>mechanics := map (\<lambda>m. if mechanic_id m = mechanic_id mechanic
                                     then set_mechanic_data (mechanic_update_data changed) m else m)
                                (mechanics db)\<rparr>)
      else (Inl MechanicBelongsToAnotherUserError, db))"
proof -
  from assms have d: "distinct (map mechanic_id (mechanics db))" by (simp add: consistent_def)
  have g: "get_mechanic_by_mechanic_id db (mechanic_id mechanic) = Inr mechanic"
    using assms d by (simp add: get_mechanic_find find_key_member)
  show ?thesis
    using update_key[OF d assms(2)] by (simp add: patch_mechanic_def g)
qed

lemma patch_autoservice_stored:
  assumes "consistent db" "autoservice \<in> set (autoservices db)"
  shows "patch_autoservice db (autoservice_id autoservice) u changed =
     (case find (\<lambda>r. autoservice_user_key r = (user_uid u, autoservice_id autoservice))
             (autoservice_users db) of
        None \<Rightarrow> (Inl AutoserviceUserNotFoundError, db)
      | Some r \<Rightarrow>
          if autoservice_manage \<in> set (autoservice_user_permissions r)
          then (Inr (set_autoservice_data (autoservice_update_data changed) autoservice),
                db\<lparr>autoservices :=
                     map (\<lambda>a. if autoservice_id a = autoservice_id autoservice
                              then set_autoservice_data (autoservice_update_data changed) a else a)
                         (autoservices db)\<rparr>)
          else (Inl AutoserviceUserDoesntHavePermissionsError, db))"
proof -
  from assms have d: "distinct (map autoservice_id (autoservices db))" by (simp add: consistent_def)
  have g: "get_autoservice_by_autoservice_id db (autoservice_id autoservice) = Inr autoservice"
    using assms d by (simp add: get_autoservice_find find_key_member)
  have up: "update_autoservice db (autoservice_id autoservice) (autoservice_update_data changed) =
      (Inr (set_autoservice_data (autoservice_update_data changed) autoservice),
       db\<lparr>autoservices :=
            map (\<lambda>a. if autoservice_id a = autoservice_id autoservice
                     then set_autoservice_data (autoservice_update_data changed) a else a)
                (autoservices db)\<rparr>)"
    unfolding update_autoservice_def update_key[OF d assms(2)] by simp
  show ?thesis
  proof (cases "find (\<lambda>r. autoservice_user_key r = (user_uid u, autoservice_id autoservice))
             (autoservice_users db)")
    case None
    then show ?thesis
      unfolding patch_autoservice_def Let_def g get_autoservice_user_find[OF assms(1)] by simp
  next
    case (Some r)
    then show ?thesis
      unfolding patch_autoservice_def Let_def g get_autoservice_user_find[OF assms(1)] up by simp
  qed
qed

lemma patch_autoservice_except_permission:
  "patch_autoservice_except e = Some PermissionDeniedException \<longleftrightarrow>
     e = AutoserviceUserNotFoundError \<or> e = AutoserviceUserDoesntHavePermissionsError"
  by (simp add: patch_autoservice_except_def)

lemma consistent_demo_db: "consistent demo_db"
  by (simp add: consistent_def demo_db_def demo_customer_def demo_mechanic_def
      demo_autoservice_def autoservice_user_key_def country_association_key_def
      vehicle_brand_association_key_def check_mechanic_or_autoservice_def)

lemma demo_holds: "holds_permission demo_db 10 3 autoservice_manage"
  by (simp add: holds_permission_def demo_db_def all_permissions_def)

lemma demo_holds_not: "\<not> holds_permission demo_db 11 3 autoservice_manage"
  by (simp add: holds_permission_def demo_db_def all_permissions_def)

text \<open>
  C1. In a consistent database, for a stored customer (mechanic): \<^verbatim>\<open>patch_customer\<close>
  (\<^verbatim>\<open>patch_mechanic\<close>) sets the submitted columns on the record when its stored uid is
  the uid of the requesting user, and otherwise raises the belongs-to-another-user error
  and leaves the database as it was. For a stored autoservice: \<^verbatim>\<open>patch_autoservice\<close>
  sets the submitted columns when the user holds \<^verbatim>\<open>autoservice:manage\<close> on it in
  \<^verbatim>\<open>AutoserviceUser\<close>, and otherwise raises \<^verbatim>\<open>AutoserviceUserNotFoundError\<close> (no row) or
  \<^verbatim>\<open>AutoserviceUserDoesntHavePermissionsError\<close> (a row without the permission), both of
  which the handler answers with \<^verbatim>\<open>PermissionDeniedException\<close>, and leaves the database as
  it was.
\<close>

theorem patch_only_by_owner_or_manager:
  assumes "consistent db"
  shows
    "(customer \<in> set (customers db) \<longrightarrow>
        patch_customer db (customer_id customer) changed_c u =
          (if customer_uid customer = user_uid u
           then (Inr (set_customer_data (customer_update_data changed_c) customer),
                 db\<lparr>customers :=
                      map (\<lambda>c. if customer_id c = customer_id customer
                               then set_customer_data (customer_update_data changed_c) c else c)
                          (customers db)\<rparr>)
           else (Inl CustomerBelongsToAnotherUserError, db))) \<and>
     (mechanic \<in> set (mechanics db) \<longrightarrow>
        patch_mechanic db (mechanic_id mechanic) changed_m u =
          (if mechanic_uid mechanic = user_uid u
           then (Inr (set_mechanic_data (mechanic_update_data changed_m) mechanic),
                 db\<lparr>mechanics :=
                      map (\<lambda>m. if mechanic_id m = mechanic_id mechanic
                               then set_mechanic_data (mechanic_update_data changed_m) m else m)
                          (mechanics db)\<rparr>)
           else (Inl MechanicBelongsToAnotherUserError, db))) \<and>
     (autoservice \<in> set (autoservices db) \<longrightarrow>
        (if holds_permission db (user_uid u) (autoservice_id autoservice) autoservice_manage
         then patch_autoservice db (autoservice_id autoservice) u changed_a =
                (Inr (set_autoservice_data (autoservice_update_data changed_a) autoservice),
                 db\<lparr>autoservices :=
                      map (\<lambda>a. if autoservice_id a = autoservice_id autoservice
                               then set_autoservice_data (autoservice_update_data changed_a) a
                               else a)
                          (autoservices db)\<rparr>)
         else (\<exists>e. patch_autoservice db (autoservice_id autoservice) u changed_a = (Inl e, db) \<and>
                   (e = AutoserviceUserNotFoundError \<or>
                    e = AutoserviceUserDoesntHavePermissionsError) \<and>
                   patch_autoservice_except e = Some PermissionDeniedException)))"
proof (intro conjI impI)
  assume "customer \<in> set (customers db)"
  then show "patch_customer db (customer_id customer) changed_c u =
          (if customer_uid customer = user_uid u
           then (Inr (set_customer_data (customer_update_data changed_c) customer),
                 db\<lparr>customers :=
                      map (\<lambda>c. if customer_id c = customer_id customer
                               then set_customer_data (customer_update_data changed_c) c else c)
                          (customers db)\<rparr>)
           else (Inl CustomerBelongsToAnotherUserError, db))"
    using assms by (rule patch_customer_stored[rotated])
next
  assume "mechanic \<in> set (mechanics db)"
  then show "patch_mechanic db (mechanic_id mechanic) changed_m u =
          (if mechanic_uid mechanic = user_uid u
           then (Inr (set_mechanic_data (mechanic_update_data changed_m) mechanic),
                 db\<lparr>mechanics :=
                      map (\<lambda>m. if mechanic_id m = mechanic_id mechanic
                               then set_mechanic_data (mechanic_update_data changed_m) m else m)
                          (mechanics db)\<rparr>)
           else (Inl MechanicBelongsToAnotherUserError, db))"
    using assms by (rule patch_mechanic_stored[rotated])
next
  assume a: "autoservice \<in> set (autoservices db)"
  let ?f = "find (\<lambda>r. autoservice_user_key r = (user_uid u, autoservice_id autoservice))
              (autoservice_users db)"
  note p = patch_autoservice_stored[OF assms a, of u changed_a]
  note h = holds_permission_find[OF assms, of "user_uid u" "autoservice_id autoservice"
      autoservice_manage]
  show "if holds_permission db (user_uid u) (autoservice_id autoservice) autoservice_manage
         then patch_autoservice db (autoservice_id autoservice) u changed_a =
                (Inr (set_autoservice_data (autoservice_update_data changed_a) autoservice),
                 db\<lparr>autoservices :=
                      map (\<lambda>a. if autoservice_id a = autoservice_id autoservice
                               then set_autoservice_data (autoservice_update_data changed_a) a
                               else a)
                          (autoservices db)\<rparr>)
         else (\<exists>e. patch_autoservice db (autoservice_id autoservice) u changed_a = (Inl e, db) \<and>
                   (e = AutoserviceUserNotFoundError \<or>
                    e = AutoserviceUserDoesntHavePermissionsError) \<and>
                   patch_autoservice_except e = Some PermissionDeniedException)"
  proof (cases ?f)
    case None
    then show ?thesis unfolding p h patch_autoservice_except_permission by simp
  next
    case (Some r)
    then show ?thesis unfolding p h patch_autoservice_except_permission by simp
  qed
qed

theorem patch_only_by_owner_or_manager_witness:
  "consistent demo_db \<and>
   demo_customer \<in> set (customers demo_db) \<and>
   demo_mechanic \<in> set (mechanics demo_db) \<and>
   demo_autoservice \<in> set (autoservices demo_db) \<and>
   patch_customer demo_db 1 demo_changed_customer \<lparr>user_uid = 11\<rparr>
     = (Inl CustomerBelongsToAnotherUserError, demo_db) \<and>
   patch_customer demo_db 1 demo_changed_customer \<lparr>user_uid = 10\<rparr>
     = (Inr (demo_customer\<lparr>customer_name := ''Patch test''\<rparr>),
        demo_db\<lparr>customers := [demo_customer\<lparr>customer_name := ''Patch test''\<rparr>]\<rparr>) \<and>
   patch_mechanic demo_db 2 demo_changed_mechanic \<lparr>user_uid = 11\<rparr>
     = (Inl MechanicBelongsToAnotherUserError, demo_db) \<and>
   patch_mechanic demo_db 2 demo_changed_mechanic \<lparr>user_uid = 10\<rparr>
     = (Inr (demo_mechanic\<lparr>mechanic_name := ''Patch test'', mechanic_mobile := True\<rparr>),
        demo_db\<lparr>mechanics :=
                 [demo_mechanic\<lparr>mechanic_name := ''Patch test'', mechanic_mobile := True\<rparr>]\<rparr>) \<and>
   patch_autoservice demo_db 3 \<lparr>user_uid = 10\<rparr> demo_changed_autoservice
     = (Inr (demo_autoservice\<lparr>autoservice_name := ''Patch test''\<rparr>),
        demo_db\<lparr>autoservices := [demo_autoservice\<lparr>autoservice_name := ''Patch test''\<rparr>]\<rparr>) \<and>
   (\<exists>e. patch_autoservice demo_db 3 \<lparr>user_uid = 11\<rparr> demo_changed_autoservice
          = (Inl e, demo_db) \<and>
        patch_autoservice_except e = Some PermissionDeniedException)"
proof -
  have ids: "customer_id demo_customer = 1" "customer_uid demo_customer = 10"
    "mechanic_id demo_mechanic = 2" "mechanic_uid demo_mechanic = 10"
    "autoservice_id demo_autoservice = 3"
    by (simp_all add: demo_customer_def demo_mechanic_def demo_autoservice_def)
  have tabs: "customers demo_db = [demo_customer]" "mechanics demo_db = [demo_mechanic]"
    "autoservices demo_db = [demo_autoservice]"
    by (simp_all add: demo_db_def)
  have sets: "set_customer_data (customer_update_data demo_changed_customer) demo_customer
                = demo_customer\<lparr>customer_name := ''Patch test''\<rparr>"
    "set_mechanic_data (mechanic_update_data demo_changed_mechanic) demo_mechanic
                = demo_mechanic\<lparr>mechanic_name := ''Patch test'', mechanic_mobile := True\<rparr>"
    "set_autoservice_data (autoservice_update_data demo_changed_autoservice) demo_autoservice
                = demo_autoservice\<lparr>autoservice_name := ''Patch test''\<rparr>"
    by (simp_all add: set_customer_data_def customer_update_data_def demo_changed_customer_def
        set_mechanic_data_def mechanic_update_data_def demo_changed_mechanic_def
        set_autoservice_data_def autoservice_update_data_def demo_changed_autoservice_def
        demo_customer_def demo_mechanic_def demo_autoservice_def)
  note t = patch_only_by_owner_or_manager[OF consistent_demo_db,
      of demo_customer demo_changed_customer _ demo_mechanic demo_changed_mechanic
         demo_autoservice demo_changed_autoservice]
  have a: "patch_customer demo_db 1 demo_changed_customer \<lparr>user_uid = 10\<rparr>
     = (Inr (demo_customer\<lparr>customer_name := ''Patch test''\<rparr>),
        demo_db\<lparr>customers := [demo_customer\<lparr>customer_name := ''Patch test''\<rparr>]\<rparr>)"
    "patch_mechanic demo_db 2 demo_changed_mechanic \<lparr>user_uid = 10\<rparr>
     = (Inr (demo_mechanic\<lparr>mechanic_name := ''Patch test'', mechanic_mobile := True\<rparr>),
        demo_db\<lparr>mechanics :=
                 [demo_mechanic\<lparr>mechanic_name := ''Patch test'', mechanic_mobile := True\<rparr>]\<rparr>)"
    "patch_autoservice demo_db 3 \<lparr>user_uid = 10\<rparr> demo_changed_autoservice
     = (Inr (demo_autoservice\<lparr>autoservice_name := ''Patch test''\<rparr>),
        demo_db\<lparr>autoservices := [demo_autoservice\<lparr>autoservice_name := ''Patch test''\<rparr>]\<rparr>)"
    using t[of "\<lparr>user_uid = 10\<rparr>"] demo_holds unfolding ids tabs sets by (simp_all add: ids sets)
  have b: "patch_customer demo_db 1 demo_changed_customer \<lparr>user_uid = 11\<rparr>
     = (Inl CustomerBelongsToAnotherUserError, demo_db)"
    "patch_mechanic demo_db 2 demo_changed_mechanic \<lparr>user_uid = 11\<rparr>
     = (Inl MechanicBelongsToAnotherUserError, demo_db)"
    "\<exists>e. patch_autoservice demo_db 3 \<lparr>user_uid = 11\<rparr> demo_changed_autoservice
          = (Inl e, demo_db) \<and>
        patch_autoservice_except e = Some PermissionDeniedException"
    using t[of "\<lparr>user_uid = 11\<rparr>"] demo_holds_not unfolding ids tabs sets
    by (simp_all add: ids sets, blast)
  have m: "demo_customer \<in> set (customers demo_db)" "demo_mechanic \<in> set (mechanics demo_db)"
    "demo_autoservice \<in> set (autoservices demo_db)"
    by (simp_all add: tabs)
  show ?thesis
    using a b m consistent_demo_db by blast
qed

section \<open>What each operation changes\<close>

text \<open>
  Every service method leaves the database as it was or changes one table (two for
  \<^verbatim>\<open>create_autoservice\<close>): it appends a row that passed the constraints, or sets columns
  that take part in no constraint.
\<close>

lemma update_rows:
  "update is_item f rows = Inr (r, rows') \<Longrightarrow>
   rows' = map (\<lambda>x. if is_item x then f x else x) rows"
  by (auto simp: update_def split: sum.splits option.splits)

lemma set_customer_data_keys:
  "customer_id (set_customer_data d c) = customer_id c"
  "customer_uid (set_customer_data d c) = customer_uid c"
  by (simp_all add: set_customer_data_def)

lemma set_mechanic_data_keys:
  "mechanic_id (set_mechanic_data d m) = mechanic_id m"
  "mechanic_uid (set_mechanic_data d m) = mechanic_uid m"
  by (simp_all add: set_mechanic_data_def)

lemma set_autoservice_data_keys:
  "autoservice_id (set_autoservice_data d a) = autoservice_id a"
  by (simp add: set_autoservice_data_def)

lemma create_customer_effect:
  "snd (create_customer db c u) = db \<or>
   (customers_constraints (c\<lparr>customer_uid := user_uid u\<rparr>) (customers db) \<and>
    snd (create_customer db c u) = db\<lparr>customers := customers db @ [c\<lparr>customer_uid := user_uid u\<rparr>]\<rparr>)"
  by (auto simp: create_customer_def Let_def create_def split: sum.splits option.splits if_splits)

lemma patch_customer_effect:
  "snd (patch_customer db cid changed u) = db \<or>
   (\<exists>p. snd (patch_customer db cid changed u) =
        db\<lparr>customers := map (\<lambda>x. if p x then set_customer_data (customer_update_data changed) x else x)
                              (customers db)\<rparr>)"
  by (auto simp: patch_customer_def Let_def split: sum.splits if_splits dest!: update_rows)

lemma create_mechanic_effect:
  "snd (create_mechanic db m u) = db \<or>
   (mechanics_constraints (m\<lparr>mechanic_uid := user_uid u\<rparr>) (mechanics db) \<and>
    snd (create_mechanic db m u) = db\<lparr>mechanics := mechanics db @ [m\<lparr>mechanic_uid := user_uid u\<rparr>]\<rparr>)"
  by (auto simp: create_mechanic_def Let_def create_def split: sum.splits option.splits if_splits)

lemma patch_mechanic_effect:
  "snd (patch_mechanic db mid changed u) = db \<or>
   (\<exists>p. snd (patch_mechanic db mid changed u) =
        db\<lparr>mechanics := map (\<lambda>x. if p x then set_mechanic_data (mechanic_update_data changed) x else x)
                              (mechanics db)\<rparr>)"
  by (auto simp: patch_mechanic_def Let_def split: sum.splits if_splits dest!: update_rows)

lemma patch_autoservice_effect:
  "snd (patch_autoservice db aid u changed) = db \<or>
   (\<exists>p. snd (patch_autoservice db aid u changed) =
        db\<lparr>autoservices :=
             map (\<lambda>x. if p x then set_autoservice_data (autoservice_update_data changed) x else x)
                 (autoservices db)\<rparr>)"
  by (auto simp: patch_autoservice_def update_autoservice_def Let_def
      split: sum.splits if_splits dest!: update_rows)

lemma create_autoservice_effect:
  "snd (create_autoservice db a u) = db \<or>
   (autoservices_constraints a (autoservices db) \<and>
    snd (create_autoservice db a u) = db\<lparr>autoservices := autoservices db @ [a]\<rparr>) \<or>
   (autoservices_constraints a (autoservices db) \<and>
    autoservice_users_constraints (owner_row a u) (autoservice_users db) \<and>
    snd (create_autoservice db a u) =
      db\<lparr>autoservices := autoservices db @ [a],
         autoservice_users := autoservice_users db @ [owner_row a u]\<rparr>)"
  by (auto simp: create_autoservice_def base_create_autoservice_def create_autoservice_owner_def
      owner_row_def Let_def create_def split: sum.splits if_splits prod.splits)

lemma create_vehicle_effect:
  "snd (create_vehicle db v) = db \<or>
   (vehicles_constraints v (vehicles db) \<and>
    snd (create_vehicle db v) = db\<lparr>vehicles := vehicles db @ [v]\<rparr>)"
  by (auto simp: create_vehicle_def base_create_vehicle_def create_def
      split: sum.splits if_splits prod.splits)

lemma create_provided_maintenance_effect:
  "snd (create_provided_maintenance db pm u) = db \<or>
   (provided_maintenances_constraints pm (provided_maintenances db) \<and>
    snd (create_provided_maintenance db pm u) =
      db\<lparr>provided_maintenances := provided_maintenances db @ [pm]\<rparr>)"
  by (auto simp: create_provided_maintenance_def create_def
      split: sum.splits if_splits prod.splits)

lemma association_service_create_country_association_effect:
  "snd (association_service_create_country_association db r) = db \<or>
   (country_associations_constraints r (provided_maintenance_country_associations db) \<and>
    snd (association_service_create_country_association db r) =
      db\<lparr>provided_maintenance_country_associations :=
           provided_maintenance_country_associations db @ [r]\<rparr>)"
  by (auto simp: association_service_create_country_association_def create_def
      split: sum.splits if_splits option.splits)

lemma association_service_create_vehicle_brand_association_effect:
  "snd (association_service_create_vehicle_brand_association db r) = db \<or>
   (vehicle_brand_associations_constraints r (provided_maintenance_vehicle_brand_associations db) \<and>
    snd (association_service_create_vehicle_brand_association db r) =
      db\<lparr>provided_maintenance_vehicle_brand_associations :=
           provided_maintenance_vehicle_brand_associations db @ [r]\<rparr>)"
  by (auto simp: association_service_create_vehicle_brand_association_def create_def
      split: sum.splits if_splits option.splits)

lemma create_provided_maintenance_country_association_effect:
  "snd (create_provided_maintenance_country_association db r u) = db \<or>
   (country_associations_constraints r (provided_maintenance_country_associations db) \<and>
    snd (create_provided_maintenance_country_association db r u) =
      db\<lparr>provided_maintenance_country_associations :=
           provided_maintenance_country_associations db @ [r]\<rparr>)"
  using association_service_create_country_association_effect[of db r]
  by (auto simp: create_provided_maintenance_country_association_def split: sum.splits)

lemma create_provided_maintenance_vehicle_brand_association_effect:
  "snd (create_provided_maintenance_vehicle_brand_association db r u) = db \<or>
   (vehicle_brand_associations_constraints r (provided_maintenance_vehicle_brand_associations db) \<and>
    snd (create_provided_maintenance_vehicle_brand_association db r u) =
      db\<lparr>provided_maintenance_vehicle_brand_associations :=
           provided_maintenance_vehicle_brand_associations db @ [r]\<rparr>)"
  using association_service_create_vehicle_brand_association_effect[of db r]
  by (auto simp: create_provided_maintenance_vehicle_brand_association_def split: sum.splits)

lemma distinct_map_update:
  "(\<And>x. key (f x) = key x) \<Longrightarrow>
   distinct (map key (map (\<lambda>x. if p x then f x else x) rows)) = distinct (map key rows)"
proof -
  assume "\<And>x. key (f x) = key x"
  then have "map key (map (\<lambda>x. if p x then f x else x) rows) = map key rows"
    by (rule map_key_update)
  then show ?thesis by (simp only:)
qed

section \<open>The declared constraints hold in every reachable state\<close>

lemma consistent_customers_append:
  "consistent db \<Longrightarrow> customers_constraints c (customers db) \<Longrightarrow>
   consistent (db\<lparr>customers := customers db @ [c]\<rparr>)"
  by (simp add: consistent_def customers_constraints_def)

lemma consistent_customers_map:
  "consistent db \<Longrightarrow>
   consistent (db\<lparr>customers := map (\<lambda>x. if p x then set_customer_data d x else x) (customers db)\<rparr>)"
  by (simp add: consistent_def distinct_map_update set_customer_data_keys del: map_map)

lemma consistent_mechanics_append:
  "consistent db \<Longrightarrow> mechanics_constraints m (mechanics db) \<Longrightarrow>
   consistent (db\<lparr>mechanics := mechanics db @ [m]\<rparr>)"
  by (simp add: consistent_def mechanics_constraints_def)

lemma consistent_mechanics_map:
  "consistent db \<Longrightarrow>
   consistent (db\<lparr>mechanics := map (\<lambda>x. if p x then set_mechanic_data d x else x) (mechanics db)\<rparr>)"
  by (simp add: consistent_def distinct_map_update set_mechanic_data_keys del: map_map)

lemma consistent_autoservices_append:
  "consistent db \<Longrightarrow> autoservices_constraints a (autoservices db) \<Longrightarrow>
   consistent (db\<lparr>autoservices := autoservices db @ [a]\<rparr>)"
  by (simp add: consistent_def autoservices_constraints_def)

lemma consistent_autoservices_map:
  "consistent db \<Longrightarrow>
   consistent (db\<lparr>autoservices :=
                   map (\<lambda>x. if p x then set_autoservice_data d x else x) (autoservices db)\<rparr>)"
  by (simp add: consistent_def distinct_map_update set_autoservice_data_keys del: map_map)

lemma consistent_autoservice_users_append:
  "consistent db \<Longrightarrow> autoservice_users_constraints r (autoservice_users db) \<Longrightarrow>
   consistent (db\<lparr>autoservice_users := autoservice_users db @ [r]\<rparr>)"
  by (simp add: consistent_def autoservice_users_constraints_def)

lemma consistent_vehicles_append:
  "consistent db \<Longrightarrow> vehicles_constraints v (vehicles db) \<Longrightarrow>
   consistent (db\<lparr>vehicles := vehicles db @ [v]\<rparr>)"
  by (auto simp: consistent_def vehicles_constraints_def)

lemma consistent_provided_maintenances_append:
  "consistent db \<Longrightarrow> provided_maintenances_constraints pm (provided_maintenances db) \<Longrightarrow>
   consistent (db\<lparr>provided_maintenances := provided_maintenances db @ [pm]\<rparr>)"
  by (simp add: consistent_def provided_maintenances_constraints_def)

lemma consistent_country_associations_append:
  "consistent db \<Longrightarrow>
   country_associations_constraints r (provided_maintenance_country_associations db) \<Longrightarrow>
   consistent (db\<lparr>provided_maintenance_country_associations :=
                   provided_maintenance_country_associations db @ [r]\<rparr>)"
  by (simp add: consistent_def country_associations_constraints_def)

lemma consistent_vehicle_brand_associations_append:
  "consistent db \<Longrightarrow>
   vehicle_brand_associations_constraints r (provided_maintenance_vehicle_brand_associations db) \<Longrightarrow>
   consistent (db\<lparr>provided_maintenance_vehicle_brand_associations :=
                   provided_maintenance_vehicle_brand_associations db @ [r]\<rparr>)"
  by (simp add: consistent_def vehicle_brand_associations_constraints_def)

lemma create_customer_consistent:
  "consistent db \<Longrightarrow> consistent (snd (create_customer db c u))"
  using create_customer_effect[of db c u] consistent_customers_append by metis

lemma patch_customer_consistent:
  "consistent db \<Longrightarrow> consistent (snd (patch_customer db cid changed u))"
  using patch_customer_effect[of db cid changed u] consistent_customers_map by metis

lemma create_mechanic_consistent:
  "consistent db \<Longrightarrow> consistent (snd (create_mechanic db m u))"
  using create_mechanic_effect[of db m u] consistent_mechanics_append by metis

lemma patch_mechanic_consistent:
  "consistent db \<Longrightarrow> consistent (snd (patch_mechanic db mid changed u))"
  using patch_mechanic_effect[of db mid changed u] consistent_mechanics_map by metis

lemma create_autoservice_consistent:
  assumes "consistent db"
  shows "consistent (snd (create_autoservice db a u))"
proof -
  have 1: "consistent (db\<lparr>autoservices := autoservices db @ [a]\<rparr>)"
    if "autoservices_constraints a (autoservices db)"
    using assms that by (rule consistent_autoservices_append)
  have 2: "consistent (db\<lparr>autoservices := autoservices db @ [a],
                          autoservice_users := autoservice_users db @ [owner_row a u]\<rparr>)"
    if "autoservices_constraints a (autoservices db)"
       "autoservice_users_constraints (owner_row a u) (autoservice_users db)"
    using consistent_autoservice_users_append[OF 1[OF that(1)], of "owner_row a u"] that(2)
    by simp
  show ?thesis
    using create_autoservice_effect[of db a u] assms 1 2 by metis
qed

lemma patch_autoservice_consistent:
  "consistent db \<Longrightarrow> consistent (snd (patch_autoservice db aid u changed))"
  using patch_autoservice_effect[of db aid u changed] consistent_autoservices_map by metis

lemma create_vehicle_consistent:
  "consistent db \<Longrightarrow> consistent (snd (create_vehicle db v))"
  using create_vehicle_effect[of db v] consistent_vehicles_append by metis

lemma create_provided_maintenance_consistent:
  "consistent db \<Longrightarrow> consistent (snd (create_provided_maintenance db pm u))"
  using create_provided_maintenance_effect[of db pm u] consistent_provided_maintenances_append
  by metis

lemma create_provided_maintenance_country_association_consistent:
  "consistent db \<Longrightarrow> consistent (snd (create_provided_maintenance_country_association db r u))"
  using create_provided_maintenance_country_association_effect[of db r u]
    consistent_country_associations_append by metis

lemma create_provided_maintenance_vehicle_brand_association_consistent:
  "consistent db \<Longrightarrow>
   consistent (snd (create_provided_maintenance_vehicle_brand_association db r u))"
  using create_provided_maintenance_vehicle_brand_association_effect[of db r u]
    consistent_vehicle_brand_associations_append by metis

lemma handle_consistent: "consistent db \<Longrightarrow> consistent (handle db rq)"
  by (cases rq)
    (simp_all add: create_customer_consistent patch_customer_consistent
      create_mechanic_consistent patch_mechanic_consistent create_autoservice_consistent
      patch_autoservice_consistent create_vehicle_consistent
      create_provided_maintenance_consistent
      create_provided_maintenance_country_association_consistent
      create_provided_maintenance_vehicle_brand_association_consistent)

lemma initial_consistent: "initial db \<Longrightarrow> consistent db"
  by (simp add: initial_def consistent_def)

lemma reachable_consistent: "reachable db \<Longrightarrow> consistent db"
  by (induction rule: reachable.induct) (simp_all add: initial_consistent handle_consistent)

section \<open>The tables request by request\<close>

lemma handle_autoservice_users:
  "autoservice_users (handle db rq) = autoservice_users db \<or>
   (\<exists>a u. rq = CreateAutoservice a u \<and>
      autoservice_users (handle db rq) = autoservice_users db @ [owner_row a u])"
proof (cases rq)
  case (CreateCustomer c u)
  then show ?thesis
    using create_customer_effect[of db c u] by auto
next
  case (PatchCustomer cid ch u)
  then show ?thesis
    using patch_customer_effect[of db cid ch u] by auto
next
  case (CreateMechanic m u)
  then show ?thesis
    using create_mechanic_effect[of db m u] by auto
next
  case (PatchMechanic mid ch u)
  then show ?thesis
    using patch_mechanic_effect[of db mid ch u] by auto
next
  case (CreateAutoservice a u)
  then show ?thesis
    using create_autoservice_effect[of db a u] by auto
next
  case (PatchAutoservice aid u ch)
  then show ?thesis
    using patch_autoservice_effect[of db aid u ch] by auto
next
  case (CreateVehicle v)
  then show ?thesis
    using create_vehicle_effect[of db v] by auto
next
  case (CreateProvidedMaintenance pm u)
  then show ?thesis
    using create_provided_maintenance_effect[of db pm u] by auto
next
  case (CreateProvidedMaintenanceCountryAssociation r u)
  then show ?thesis
    using create_provided_maintenance_country_association_effect[of db r u] by auto
next
  case (CreateProvidedMaintenanceVehicleBrandAssociation r u)
  then show ?thesis
    using create_provided_maintenance_vehicle_brand_association_effect[of db r u] by auto
qed

lemma handle_provided_maintenances:
  "provided_maintenances (handle db rq) = provided_maintenances db \<or>
   (\<exists>pm. check_mechanic_or_autoservice pm \<and>
      provided_maintenances (handle db rq) = provided_maintenances db @ [pm])"
proof (cases rq)
  case (CreateCustomer c u)
  then show ?thesis
    using create_customer_effect[of db c u] by auto
next
  case (PatchCustomer cid ch u)
  then show ?thesis
    using patch_customer_effect[of db cid ch u] by auto
next
  case (CreateMechanic m u)
  then show ?thesis
    using create_mechanic_effect[of db m u] by auto
next
  case (PatchMechanic mid ch u)
  then show ?thesis
    using patch_mechanic_effect[of db mid ch u] by auto
next
  case (CreateAutoservice a u)
  then show ?thesis
    using create_autoservice_effect[of db a u] by auto
next
  case (PatchAutoservice aid u ch)
  then show ?thesis
    using patch_autoservice_effect[of db aid u ch] by auto
next
  case (CreateVehicle v)
  then show ?thesis
    using create_vehicle_effect[of db v] by auto
next
  case (CreateProvidedMaintenance pm u)
  then show ?thesis
    using create_provided_maintenance_effect[of db pm u]
    by (auto simp: provided_maintenances_constraints_def)
next
  case (CreateProvidedMaintenanceCountryAssociation r u)
  then show ?thesis
    using create_provided_maintenance_country_association_effect[of db r u] by auto
next
  case (CreateProvidedMaintenanceVehicleBrandAssociation r u)
  then show ?thesis
    using create_provided_maintenance_vehicle_brand_association_effect[of db r u] by auto
qed

lemma handle_autoservice_ids:
  "set (map autoservice_id (autoservices db))
     \<subseteq> set (map autoservice_id (autoservices (handle db rq)))"
proof (cases rq)
  case (CreateCustomer c u)
  then show ?thesis
    using create_customer_effect[of db c u] by auto
next
  case (PatchCustomer cid ch u)
  then show ?thesis
    using patch_customer_effect[of db cid ch u] by auto
next
  case (CreateMechanic m u)
  then show ?thesis
    using create_mechanic_effect[of db m u] by auto
next
  case (PatchMechanic mid ch u)
  then show ?thesis
    using patch_mechanic_effect[of db mid ch u] by auto
next
  case (CreateAutoservice a u)
  then show ?thesis
    using create_autoservice_effect[of db a u] by auto
next
  case (PatchAutoservice aid u ch)
  have k: "map autoservice_id (map (\<lambda>x. if p x then set_autoservice_data d x else x) rows)
          = map autoservice_id rows" for p d rows
    by (rule map_key_update) (rule set_autoservice_data_keys)
  have "map autoservice_id (autoservices (snd (patch_autoservice db aid u ch)))
          = map autoservice_id (autoservices db)"
    using patch_autoservice_effect[of db aid u ch]
  proof
    assume "snd (patch_autoservice db aid u ch) = db"
    then show ?thesis by simp
  next
    assume "\<exists>p. snd (patch_autoservice db aid u ch) =
        db\<lparr>autoservices :=
             map (\<lambda>x. if p x then set_autoservice_data (autoservice_update_data ch) x else x)
                 (autoservices db)\<rparr>"
    then obtain p where e: "snd (patch_autoservice db aid u ch) =
        db\<lparr>autoservices :=
             map (\<lambda>x. if p x then set_autoservice_data (autoservice_update_data ch) x else x)
                 (autoservices db)\<rparr>" by blast
    show ?thesis unfolding e by (simp add: k del: map_map)
  qed
  then show ?thesis using PatchAutoservice by simp
next
  case (CreateVehicle v)
  then show ?thesis
    using create_vehicle_effect[of db v] by auto
next
  case (CreateProvidedMaintenance pm u)
  then show ?thesis
    using create_provided_maintenance_effect[of db pm u] by auto
next
  case (CreateProvidedMaintenanceCountryAssociation r u)
  then show ?thesis
    using create_provided_maintenance_country_association_effect[of db r u] by auto
next
  case (CreateProvidedMaintenanceVehicleBrandAssociation r u)
  then show ?thesis
    using create_provided_maintenance_vehicle_brand_association_effect[of db r u] by auto
qed

section \<open>One record per user\<close>

lemma filter_key_at_most_one:
  "distinct (map key rows) \<Longrightarrow> length (filter (\<lambda>x. key x = k) rows) \<le> 1"
proof (induction rows)
  case Nil
  then show ?case by simp
next
  case (Cons x xs)
  show ?case
  proof (cases "key x = k")
    case True
    from Cons.prems True have "k \<notin> key ` set xs" by auto
    then have "filter (\<lambda>y. key y = k) xs = []"
      by (auto simp: filter_empty_conv)
    with True show ?thesis by simp
  next
    case False
    with Cons show ?thesis by simp
  qed
qed

lemma create_customer_existing:
  assumes "consistent db" "saved \<in> set (customers db)" "customer_uid saved = user_uid u"
  shows "create_customer db customer u = (Inr saved, db)"
proof -
  from assms(1) have d: "distinct (map customer_uid (customers db))"
    by (simp add: consistent_def)
  have "get_one_or_none (\<lambda>c. customer_uid c = customer_uid saved) (customers db)
          = Inr (Some saved)"
    using d assms(2) by (simp add: get_one_or_none_find find_key_member)
  then show ?thesis by (simp add: create_customer_def assms(3))
qed

lemma create_mechanic_existing:
  assumes "consistent db" "saved \<in> set (mechanics db)" "mechanic_uid saved = user_uid u"
  shows "create_mechanic db mechanic u = (Inr saved, db)"
proof -
  from assms(1) have d: "distinct (map mechanic_uid (mechanics db))"
    by (simp add: consistent_def)
  have "get_one_or_none (\<lambda>m. mechanic_uid m = mechanic_uid saved) (mechanics db)
          = Inr (Some saved)"
    using d assms(2) by (simp add: get_one_or_none_find find_key_member)
  then show ?thesis by (simp add: create_mechanic_def assms(3))
qed

lemma initial_demo_initial_db: "initial demo_initial_db"
  by (simp add: initial_def demo_initial_db_def demo_db_def)

lemma demo_first_customer:
  "handle demo_initial_db (CreateCustomer demo_customer \<lparr>user_uid = 10\<rparr>)
     = demo_initial_db\<lparr>customers := [demo_customer]\<rparr>"
  by (simp add: create_customer_def get_one_or_none_def create_def customers_constraints_def
      demo_initial_db_def demo_customer_def Let_def)

text \<open>
  C9. In a consistent database where a customer (mechanic) record with the uid of the user
  is stored, \<^verbatim>\<open>create_customer\<close> (\<^verbatim>\<open>create_mechanic\<close>) returns that record and leaves
  the database as it was. In every reachable state at most one customer record and at most
  one mechanic record carry the uid of a given user.
\<close>

theorem create_is_idempotent_per_user:
  "(consistent db \<and> saved_customer \<in> set (customers db) \<and>
      customer_uid saved_customer = user_uid u \<longrightarrow>
        create_customer db customer u = (Inr saved_customer, db)) \<and>
   (consistent db \<and> saved_mechanic \<in> set (mechanics db) \<and>
      mechanic_uid saved_mechanic = user_uid u \<longrightarrow>
        create_mechanic db mechanic u = (Inr saved_mechanic, db)) \<and>
   (reachable db \<longrightarrow>
      length (filter (\<lambda>c. customer_uid c = user_uid u) (customers db)) \<le> 1 \<and>
      length (filter (\<lambda>m. mechanic_uid m = user_uid u) (mechanics db)) \<le> 1)"
proof (intro conjI impI)
  assume "consistent db \<and> saved_customer \<in> set (customers db) \<and>
      customer_uid saved_customer = user_uid u"
  then show "create_customer db customer u = (Inr saved_customer, db)"
    using create_customer_existing by blast
next
  assume "consistent db \<and> saved_mechanic \<in> set (mechanics db) \<and>
      mechanic_uid saved_mechanic = user_uid u"
  then show "create_mechanic db mechanic u = (Inr saved_mechanic, db)"
    using create_mechanic_existing by blast
next
  assume "reachable db"
  then have "distinct (map customer_uid (customers db))"
    using reachable_consistent consistent_def by blast
  then show "length (filter (\<lambda>c. customer_uid c = user_uid u) (customers db)) \<le> 1"
    by (rule filter_key_at_most_one)
next
  assume "reachable db"
  then have "distinct (map mechanic_uid (mechanics db))"
    using reachable_consistent consistent_def by blast
  then show "length (filter (\<lambda>m. mechanic_uid m = user_uid u) (mechanics db)) \<le> 1"
    by (rule filter_key_at_most_one)
qed

theorem create_is_idempotent_per_user_witness:
  "consistent demo_db \<and> demo_customer \<in> set (customers demo_db) \<and>
   customer_uid demo_customer = user_uid \<lparr>user_uid = 10\<rparr> \<and>
   create_customer demo_db (demo_customer\<lparr>customer_id := 77, customer_name := ''Again''\<rparr>)
      \<lparr>user_uid = 10\<rparr> = (Inr demo_customer, demo_db) \<and>
   demo_mechanic \<in> set (mechanics demo_db) \<and>
   mechanic_uid demo_mechanic = user_uid \<lparr>user_uid = 10\<rparr> \<and>
   create_mechanic demo_db (demo_mechanic\<lparr>mechanic_id := 78\<rparr>) \<lparr>user_uid = 10\<rparr>
     = (Inr demo_mechanic, demo_db) \<and>
   reachable (demo_initial_db\<lparr>customers := [demo_customer]\<rparr>) \<and>
   length (filter (\<lambda>c. customer_uid c = user_uid \<lparr>user_uid = 10\<rparr>)
             (customers (demo_initial_db\<lparr>customers := [demo_customer]\<rparr>))) \<le> 1 \<and>
   length (filter (\<lambda>m. mechanic_uid m = user_uid \<lparr>user_uid = 10\<rparr>)
             (mechanics (demo_initial_db\<lparr>customers := [demo_customer]\<rparr>))) \<le> 1"
proof -
  have r: "reachable (demo_initial_db\<lparr>customers := [demo_customer]\<rparr>)"
    using reachable_handle[OF reachable_initial[OF initial_demo_initial_db],
        of "CreateCustomer demo_customer \<lparr>user_uid = 10\<rparr>"]
    unfolding demo_first_customer .
  have m: "demo_customer \<in> set (customers demo_db)" "demo_mechanic \<in> set (mechanics demo_db)"
    "customer_uid demo_customer = user_uid \<lparr>user_uid = 10\<rparr>"
    "mechanic_uid demo_mechanic = user_uid \<lparr>user_uid = 10\<rparr>"
    by (simp_all add: demo_db_def demo_customer_def demo_mechanic_def)
  note t1 = create_is_idempotent_per_user[of demo_db demo_customer "\<lparr>user_uid = 10\<rparr>"
      "demo_customer\<lparr>customer_id := 77, customer_name := ''Again''\<rparr>"
      demo_mechanic "demo_mechanic\<lparr>mechanic_id := 78\<rparr>"]
  note t2 = create_is_idempotent_per_user[of "demo_initial_db\<lparr>customers := [demo_customer]\<rparr>"
      demo_customer "\<lparr>user_uid = 10\<rparr>" demo_customer demo_mechanic demo_mechanic]
  show ?thesis
    using t1 t2 r m consistent_demo_db by blast
qed

section \<open>Duplicate associations\<close>

lemma demo_run: "foldl handle demo_initial_db demo_requests = demo_reached_db"
  by code_simp

lemma reachable_foldl: "reachable db \<Longrightarrow> reachable (foldl handle db rqs)"
  by (induction rqs arbitrary: db) (simp_all add: reachable_handle)

lemma reachable_demo_reached_db: "reachable demo_reached_db"
  using reachable_foldl[OF reachable_initial[OF initial_demo_initial_db], of demo_requests]
  unfolding demo_run .

lemma country_association_key_eq:
  "country_association_key r = (pid, cid) \<longleftrightarrow>
     country_association_provided_maintenance_id r = pid \<and> country_association_country_id r = cid"
  by (simp add: country_association_key_def)

lemma vehicle_brand_association_key_eq:
  "vehicle_brand_association_key r = (pid, bid) \<longleftrightarrow>
     vehicle_brand_association_provided_maintenance_id r = pid \<and>
     vehicle_brand_association_vehicle_brand_id r = bid"
  by (simp add: vehicle_brand_association_key_def)

lemma country_association_duplicate:
  assumes "consistent db" "existing \<in> set (provided_maintenance_country_associations db)"
    "country_association_provided_maintenance_id existing
       = country_association_provided_maintenance_id association"
    "country_association_country_id existing = country_association_country_id association"
  shows "association_service_create_country_association db association =
           (Inl ProvidedMaintenanceCountryAssociationAlreadyExistsError, db)"
proof -
  from assms(1) have d: "distinct (map country_association_key
                                    (provided_maintenance_country_associations db))"
    by (simp add: consistent_def)
  have k: "country_association_key existing =
             (country_association_provided_maintenance_id association,
              country_association_country_id association)"
    using assms(3,4) by (simp add: country_association_key_def)
  have "get_one_or_none
          (\<lambda>r. country_association_key r =
                  (country_association_provided_maintenance_id association,
                   country_association_country_id association))
          (provided_maintenance_country_associations db) = Inr (Some existing)"
    unfolding k[symmetric] get_one_or_none_find[OF d] find_key_member[OF d assms(2)] ..
  then show ?thesis
    unfolding association_service_create_country_association_def country_association_criterion
    by simp
qed

lemma vehicle_brand_association_duplicate:
  assumes "consistent db" "existing \<in> set (provided_maintenance_vehicle_brand_associations db)"
    "vehicle_brand_association_provided_maintenance_id existing
       = vehicle_brand_association_provided_maintenance_id association"
    "vehicle_brand_association_vehicle_brand_id existing
       = vehicle_brand_association_vehicle_brand_id association"
  shows "association_service_create_vehicle_brand_association db association =
           (Inl ProvidedMaintenanceVehicleBrandAssociationAlreadyExistsError, db)"
proof -
  from assms(1) have d: "distinct (map vehicle_brand_association_key
                                    (provided_maintenance_vehicle_brand_associations db))"
    by (simp add: consistent_def)
  have k: "vehicle_brand_association_key existing =
             (vehicle_brand_association_provided_maintenance_id association,
              vehicle_brand_association_vehicle_brand_id association)"
    using assms(3,4) by (simp add: vehicle_brand_association_key_def)
  have "get_one_or_none
          (\<lambda>r. vehicle_brand_association_key r =
                  (vehicle_brand_association_provided_maintenance_id association,
                   vehicle_brand_association_vehicle_brand_id association))
          (provided_maintenance_vehicle_brand_associations db) = Inr (Some existing)"
    unfolding k[symmetric] get_one_or_none_find[OF d] find_key_member[OF d assms(2)] ..
  then show ?thesis
    unfolding association_service_create_vehicle_brand_association_def
      vehicle_brand_association_criterion
    by simp
qed

lemma country_association_duplicate_top:
  assumes "consistent db" "existing \<in> set (provided_maintenance_country_associations db)"
    "country_association_provided_maintenance_id existing
       = country_association_provided_maintenance_id association"
    "country_association_country_id existing = country_association_country_id association"
  shows "\<exists>e. create_provided_maintenance_country_association db association u = (Inl e, db)"
  using country_association_duplicate[OF assms]
  by (simp add: create_provided_maintenance_country_association_def split: sum.splits)

lemma vehicle_brand_association_duplicate_top:
  assumes "consistent db" "existing \<in> set (provided_maintenance_vehicle_brand_associations db)"
    "vehicle_brand_association_provided_maintenance_id existing
       = vehicle_brand_association_provided_maintenance_id association"
    "vehicle_brand_association_vehicle_brand_id existing
       = vehicle_brand_association_vehicle_brand_id association"
  shows "\<exists>e. create_provided_maintenance_vehicle_brand_association db association u = (Inl e, db)"
  using vehicle_brand_association_duplicate[OF assms]
  by (simp add: create_provided_maintenance_vehicle_brand_association_def split: sum.splits)

text \<open>
  C4. In a consistent database that holds an association with the same maintenance id and
  country id (vehicle-brand id), the association service raises the AlreadyExists error and
  leaves the database as it was, and so does the method of
  \<^verbatim>\<open>ProvidedMaintenanceService\<close> that calls it (with this error or the error of an earlier
  check). In every reachable state each pair of maintenance id and country id, and each
  pair of maintenance id and vehicle-brand id, occurs at most once.
\<close>

theorem duplicate_association_rejected:
  "(consistent db \<and> existing_c \<in> set (provided_maintenance_country_associations db) \<and>
      country_association_provided_maintenance_id existing_c
        = country_association_provided_maintenance_id association_c \<and>
      country_association_country_id existing_c = country_association_country_id association_c
    \<longrightarrow>
      association_service_create_country_association db association_c =
        (Inl ProvidedMaintenanceCountryAssociationAlreadyExistsError, db) \<and>
      (\<exists>e. create_provided_maintenance_country_association db association_c u = (Inl e, db))) \<and>
   (consistent db \<and> existing_b \<in> set (provided_maintenance_vehicle_brand_associations db) \<and>
      vehicle_brand_association_provided_maintenance_id existing_b
        = vehicle_brand_association_provided_maintenance_id association_b \<and>
      vehicle_brand_association_vehicle_brand_id existing_b
        = vehicle_brand_association_vehicle_brand_id association_b
    \<longrightarrow>
      association_service_create_vehicle_brand_association db association_b =
        (Inl ProvidedMaintenanceVehicleBrandAssociationAlreadyExistsError, db) \<and>
      (\<exists>e. create_provided_maintenance_vehicle_brand_association db association_b u
             = (Inl e, db))) \<and>
   (reachable db \<longrightarrow>
      length (filter (\<lambda>r. country_association_provided_maintenance_id r = M \<and>
                          country_association_country_id r = C)
                (provided_maintenance_country_associations db)) \<le> 1 \<and>
      length (filter (\<lambda>r. vehicle_brand_association_provided_maintenance_id r = M \<and>
                          vehicle_brand_association_vehicle_brand_id r = B)
                (provided_maintenance_vehicle_brand_associations db)) \<le> 1)"
proof (intro conjI impI)
  assume a: "consistent db \<and> existing_c \<in> set (provided_maintenance_country_associations db) \<and>
      country_association_provided_maintenance_id existing_c
        = country_association_provided_maintenance_id association_c \<and>
      country_association_country_id existing_c = country_association_country_id association_c"
  then show "association_service_create_country_association db association_c =
        (Inl ProvidedMaintenanceCountryAssociationAlreadyExistsError, db)"
    using country_association_duplicate by blast
  from a show "\<exists>e. create_provided_maintenance_country_association db association_c u
                 = (Inl e, db)"
    using country_association_duplicate_top by blast
next
  assume a: "consistent db \<and> existing_b \<in> set (provided_maintenance_vehicle_brand_associations db) \<and>
      vehicle_brand_association_provided_maintenance_id existing_b
        = vehicle_brand_association_provided_maintenance_id association_b \<and>
      vehicle_brand_association_vehicle_brand_id existing_b
        = vehicle_brand_association_vehicle_brand_id association_b"
  then show "association_service_create_vehicle_brand_association db association_b =
        (Inl ProvidedMaintenanceVehicleBrandAssociationAlreadyExistsError, db)"
    using vehicle_brand_association_duplicate by blast
  from a show "\<exists>e. create_provided_maintenance_vehicle_brand_association db association_b u
             = (Inl e, db)"
    using vehicle_brand_association_duplicate_top by blast
next
  assume "reachable db"
  then have "distinct (map country_association_key (provided_maintenance_country_associations db))"
    using reachable_consistent consistent_def by blast
  then show "length (filter (\<lambda>r. country_association_provided_maintenance_id r = M \<and>
                          country_association_country_id r = C)
                (provided_maintenance_country_associations db)) \<le> 1"
    unfolding country_association_criterion by (rule filter_key_at_most_one)
next
  assume "reachable db"
  then have "distinct (map vehicle_brand_association_key
                         (provided_maintenance_vehicle_brand_associations db))"
    using reachable_consistent consistent_def by blast
  then show "length (filter (\<lambda>r. vehicle_brand_association_provided_maintenance_id r = M \<and>
                          vehicle_brand_association_vehicle_brand_id r = B)
                (provided_maintenance_vehicle_brand_associations db)) \<le> 1"
    unfolding vehicle_brand_association_criterion by (rule filter_key_at_most_one)
qed

theorem duplicate_association_rejected_witness:
  "reachable demo_reached_db \<and> consistent demo_reached_db \<and>
   demo_country_association \<in> set (provided_maintenance_country_associations demo_reached_db) \<and>
   demo_vehicle_brand_association
     \<in> set (provided_maintenance_vehicle_brand_associations demo_reached_db) \<and>
   association_service_create_country_association demo_reached_db demo_country_association =
     (Inl ProvidedMaintenanceCountryAssociationAlreadyExistsError, demo_reached_db) \<and>
   association_service_create_vehicle_brand_association demo_reached_db
       demo_vehicle_brand_association =
     (Inl ProvidedMaintenanceVehicleBrandAssociationAlreadyExistsError, demo_reached_db) \<and>
   length (filter (\<lambda>r. country_association_provided_maintenance_id r = 5 \<and>
                       country_association_country_id r = 1)
             (provided_maintenance_country_associations demo_reached_db)) \<le> 1 \<and>
   length (filter (\<lambda>r. vehicle_brand_association_provided_maintenance_id r = 5 \<and>
                       vehicle_brand_association_vehicle_brand_id r = 1)
             (provided_maintenance_vehicle_brand_associations demo_reached_db)) \<le> 1"
proof -
  have m: "demo_country_association
             \<in> set (provided_maintenance_country_associations demo_reached_db)"
    "demo_vehicle_brand_association
       \<in> set (provided_maintenance_vehicle_brand_associations demo_reached_db)"
    by (simp_all add: demo_reached_db_def demo_country_association_def
        demo_vehicle_brand_association_def)
  note c = reachable_consistent[OF reachable_demo_reached_db]
  show ?thesis
    using duplicate_association_rejected[of demo_reached_db demo_country_association
        demo_country_association "\<lparr>user_uid = 10\<rparr>" demo_vehicle_brand_association
        demo_vehicle_brand_association 5 1 1]
      m c reachable_demo_reached_db
    by blast
qed

section \<open>The executor of a provided maintenance\<close>

lemma handle_keeps_check:
  "list_all check_mechanic_or_autoservice (provided_maintenances db) \<Longrightarrow>
   list_all check_mechanic_or_autoservice (provided_maintenances (handle db rq))"
  using handle_provided_maintenances[of db rq] by auto

lemma create_provided_maintenance_without_executor:
  assumes "provided_maintenance_mechanic_id pm = None"
    "provided_maintenance_autoservice_id pm = None"
  shows "\<exists>e. create_provided_maintenance db pm u = (Inl e, db)"
proof -
  have "\<not> provided_maintenances_constraints pm (provided_maintenances db)"
    using assms by (simp add: provided_maintenances_constraints_def check_mechanic_or_autoservice_def)
  then have c: "create provided_maintenances_constraints pm (provided_maintenances db)
                 = Inl IntegrityError"
    by (simp add: create_def)
  show ?thesis
    unfolding create_provided_maintenance_def assms create_mechanic_block_def
      autoservice_block_def c
    by (simp split: sum.splits)
qed

text \<open>
  C5. In every reachable state each stored provided maintenance has a mechanic id or an
  autoservice id. Every request keeps this: the only one that writes the table is the
  creation, and the insert of a record with neither id is refused by the check constraint
  of the table, so \<^verbatim>\<open>create_provided_maintenance\<close> fails and stores nothing.
\<close>

theorem provided_maintenance_has_executor:
  "(reachable db \<longrightarrow>
      (\<forall>pm \<in> set (provided_maintenances db).
         provided_maintenance_mechanic_id pm \<noteq> None \<or>
         provided_maintenance_autoservice_id pm \<noteq> None)) \<and>
   (list_all check_mechanic_or_autoservice (provided_maintenances db) \<longrightarrow>
      list_all check_mechanic_or_autoservice (provided_maintenances (handle db rq))) \<and>
   (provided_maintenance_mechanic_id new = None \<and>
    provided_maintenance_autoservice_id new = None \<longrightarrow>
      (\<exists>e. create_provided_maintenance db new u = (Inl e, db)))"
proof (intro conjI impI)
  assume "reachable db"
  then have "list_all check_mechanic_or_autoservice (provided_maintenances db)"
    using reachable_consistent consistent_def by blast
  then show "\<forall>pm \<in> set (provided_maintenances db).
         provided_maintenance_mechanic_id pm \<noteq> None \<or>
         provided_maintenance_autoservice_id pm \<noteq> None"
    unfolding list_all_iff check_mechanic_or_autoservice_def .
next
  assume "list_all check_mechanic_or_autoservice (provided_maintenances db)"
  then show "list_all check_mechanic_or_autoservice (provided_maintenances (handle db rq))"
    by (rule handle_keeps_check)
next
  assume "provided_maintenance_mechanic_id new = None \<and>
    provided_maintenance_autoservice_id new = None"
  then show "\<exists>e. create_provided_maintenance db new u = (Inl e, db)"
    using create_provided_maintenance_without_executor by blast
qed

theorem provided_maintenance_has_executor_witness:
  "reachable demo_reached_db \<and>
   demo_provided_maintenance \<in> set (provided_maintenances demo_reached_db) \<and>
   provided_maintenance_mechanic_id demo_provided_maintenance = Some 2 \<and>
   list_all check_mechanic_or_autoservice (provided_maintenances demo_reached_db) \<and>
   list_all check_mechanic_or_autoservice
     (provided_maintenances
        (handle demo_reached_db
           (CreateProvidedMaintenance
              (demo_provided_maintenance\<lparr>provided_maintenance_id := 6\<rparr>) \<lparr>user_uid = 10\<rparr>))) \<and>
   (\<exists>e. create_provided_maintenance demo_reached_db
          (demo_provided_maintenance\<lparr>provided_maintenance_mechanic_id := None,
                                      provided_maintenance_autoservice_id := None\<rparr>)
          \<lparr>user_uid = 10\<rparr> = (Inl e, demo_reached_db))"
proof -
  note t = provided_maintenance_has_executor[of demo_reached_db
      "CreateProvidedMaintenance (demo_provided_maintenance\<lparr>provided_maintenance_id := 6\<rparr>)
         \<lparr>user_uid = 10\<rparr>"
      "demo_provided_maintenance\<lparr>provided_maintenance_mechanic_id := None,
                                  provided_maintenance_autoservice_id := None\<rparr>"
      "\<lparr>user_uid = 10\<rparr>"]
  have m: "demo_provided_maintenance \<in> set (provided_maintenances demo_reached_db)"
    "provided_maintenance_mechanic_id demo_provided_maintenance = Some 2"
    by (simp_all add: demo_reached_db_def demo_provided_maintenance_def)
  have l: "list_all check_mechanic_or_autoservice (provided_maintenances demo_reached_db)"
    using t reachable_demo_reached_db
    unfolding list_all_iff check_mechanic_or_autoservice_def by blast
  have n: "provided_maintenance_mechanic_id
             (demo_provided_maintenance\<lparr>provided_maintenance_mechanic_id := None,
                                         provided_maintenance_autoservice_id := None\<rparr>) = None \<and>
           provided_maintenance_autoservice_id
             (demo_provided_maintenance\<lparr>provided_maintenance_mechanic_id := None,
                                         provided_maintenance_autoservice_id := None\<rparr>) = None"
    by simp
  show ?thesis
    using t l m n reachable_demo_reached_db by blast
qed

section \<open>The creator of an autoservice\<close>

lemma create_autoservice_Inr:
  assumes "create_autoservice db a u = (Inr created, db')"
  shows "created = a \<and> autoservices_constraints a (autoservices db) \<and>
         autoservice_users_constraints (owner_row a u) (autoservice_users db) \<and>
         db' = db\<lparr>autoservices := autoservices db @ [a],
                   autoservice_users := autoservice_users db @ [owner_row a u]\<rparr>"
  using assms
  by (auto simp: create_autoservice_def base_create_autoservice_def create_autoservice_owner_def
      owner_row_def Let_def create_def split: sum.splits if_splits prod.splits)

lemma holds_permission_handle:
  "holds_permission db uid aid p \<Longrightarrow> holds_permission (handle db rq) uid aid p"
  using handle_autoservice_users[of db rq] unfolding holds_permission_def by auto

lemma holds_permission_foldl:
  "holds_permission db uid aid p \<Longrightarrow> holds_permission (foldl handle db rqs) uid aid p"
  by (induction rqs arbitrary: db) (simp_all add: holds_permission_handle)

lemma autoservice_ids_foldl:
  "set (map autoservice_id (autoservices db))
     \<subseteq> set (map autoservice_id (autoservices (foldl handle db rqs)))"
proof (induction rqs arbitrary: db)
  case Nil
  then show ?case by simp
next
  case (Cons rq rqs)
  show ?case
    using handle_autoservice_ids[of db rq] Cons.IH[of "handle db rq"] by simp
qed

lemma patch_autoservice_permitted:
  assumes "consistent db" "aid \<in> set (map autoservice_id (autoservices db))"
    "holds_permission db (user_uid u) aid autoservice_manage"
  shows "\<exists>r db'. patch_autoservice db aid u changed = (Inr r, db')"
proof -
  from assms(2) obtain a where a: "a \<in> set (autoservices db)" "autoservice_id a = aid"
    by auto
  note p = patch_autoservice_stored[OF assms(1) a(1), of u changed]
  note h = holds_permission_find[OF assms(1), of "user_uid u" aid autoservice_manage]
  show ?thesis
  proof (cases "find (\<lambda>r. autoservice_user_key r = (user_uid u, aid)) (autoservice_users db)")
    case None
    then show ?thesis using assms(3) unfolding h by simp
  next
    case (Some r)
    then show ?thesis using assms(3) p unfolding h a(2) by simp
  qed
qed

lemma validate_manage_provided_maintenance_permitted:
  assumes "consistent db"
    "holds_permission db (user_uid u) (autoservice_id a) autoservice_manage_provided_maintenance"
  shows "validate_autoservice_manage_provided_maintenance_permissions db a u = Inr ()"
proof -
  note h = holds_permission_find[OF assms(1), of "user_uid u" "autoservice_id a"
      autoservice_manage_provided_maintenance]
  show ?thesis
  proof (cases "find (\<lambda>r. autoservice_user_key r = (user_uid u, autoservice_id a))
                  (autoservice_users db)")
    case None
    then show ?thesis using assms(2) unfolding h by simp
  next
    case (Some r)
    then show ?thesis using assms(2)
      unfolding h validate_autoservice_manage_provided_maintenance_permissions_def
        get_autoservice_user_find[OF assms(1)]
      by simp
  qed
qed

lemma demo_create_autoservice:
  "create_autoservice demo_initial_db demo_autoservice \<lparr>user_uid = 10\<rparr>
     = (Inr demo_autoservice, demo_autoservice_created_db)"
  by code_simp

text \<open>
  C10. When \<^verbatim>\<open>create_autoservice\<close> succeeds, it has stored the autoservice and one new row
  of \<^verbatim>\<open>AutoserviceUser\<close> for the uid of the user and the id of the new autoservice, with
  both permissions. The user holds both permissions from then on: starting from a reachable
  state, after any further requests \<^verbatim>\<open>patch_autoservice\<close> by this user on this autoservice
  succeeds and the check for \<^verbatim>\<open>autoservice:manage_provided_maintenance\<close> passes.
\<close>

theorem create_autoservice_makes_creator_owner:
  "create_autoservice db autoservice u = (Inr created, db') \<longrightarrow>
     created = autoservice \<and>
     autoservices db' = autoservices db @ [created] \<and>
     autoservice_users db' =
       autoservice_users db @
         [\<lparr>autoservice_user_uid = user_uid u,
           autoservice_user_autoservice_id = autoservice_id created,
           autoservice_user_permissions =
             [autoservice_manage, autoservice_manage_provided_maintenance]\<rparr>] \<and>
     holds_permission db' (user_uid u) (autoservice_id created) autoservice_manage \<and>
     holds_permission db' (user_uid u) (autoservice_id created)
       autoservice_manage_provided_maintenance \<and>
     (reachable db \<longrightarrow>
        (\<forall>rqs changed.
           (\<exists>r db''. patch_autoservice (foldl handle db' rqs) (autoservice_id created) u changed
                       = (Inr r, db'')) \<and>
           validate_autoservice_manage_provided_maintenance_permissions
             (foldl handle db' rqs) created u = Inr ()))"
proof (intro impI)
  assume c: "create_autoservice db autoservice u = (Inr created, db')"
  note e = create_autoservice_Inr[OF c]
  from e have cr: "created = autoservice" by blast
  from e have db': "db' = db\<lparr>autoservices := autoservices db @ [autoservice],
                   autoservice_users := autoservice_users db @ [owner_row autoservice u]\<rparr>"
    by blast
  have t1: "autoservices db' = autoservices db @ [created]"
    unfolding db' cr by simp
  have t2: "autoservice_users db' =
       autoservice_users db @
         [\<lparr>autoservice_user_uid = user_uid u,
           autoservice_user_autoservice_id = autoservice_id created,
           autoservice_user_permissions =
             [autoservice_manage, autoservice_manage_provided_maintenance]\<rparr>]"
    unfolding db' cr by (simp add: owner_row_def all_permissions_def)
  have h1: "holds_permission db' (user_uid u) (autoservice_id created) autoservice_manage"
    unfolding holds_permission_def t2 by simp
  have h2: "holds_permission db' (user_uid u) (autoservice_id created)
       autoservice_manage_provided_maintenance"
    unfolding holds_permission_def t2 by simp
  have later: "(\<exists>r db''. patch_autoservice (foldl handle db' rqs) (autoservice_id created) u changed
                       = (Inr r, db'')) \<and>
           validate_autoservice_manage_provided_maintenance_permissions
             (foldl handle db' rqs) created u = Inr ()"
    if r: "reachable db" for rqs changed
  proof -
    have hd: "handle db (CreateAutoservice autoservice u) = db'"
      unfolding handle.simps c by simp
    have "reachable db'"
      using reachable_handle[OF r, of "CreateAutoservice autoservice u"] unfolding hd .
    then have "reachable (foldl handle db' rqs)" by (rule reachable_foldl)
    then have con: "consistent (foldl handle db' rqs)" by (rule reachable_consistent)
    have "autoservice_id created \<in> set (map autoservice_id (autoservices db'))"
      unfolding t1 by simp
    then have i: "autoservice_id created
                    \<in> set (map autoservice_id (autoservices (foldl handle db' rqs)))"
      using autoservice_ids_foldl by blast
    have p1: "holds_permission (foldl handle db' rqs) (user_uid u) (autoservice_id created)
                autoservice_manage"
      using h1 by (rule holds_permission_foldl)
    have p2: "holds_permission (foldl handle db' rqs) (user_uid u) (autoservice_id created)
                autoservice_manage_provided_maintenance"
      using h2 by (rule holds_permission_foldl)
    show ?thesis
      using patch_autoservice_permitted[OF con i p1]
        validate_manage_provided_maintenance_permitted[OF con p2] by blast
  qed
  show "created = autoservice \<and>
     autoservices db' = autoservices db @ [created] \<and>
     autoservice_users db' =
       autoservice_users db @
         [\<lparr>autoservice_user_uid = user_uid u,
           autoservice_user_autoservice_id = autoservice_id created,
           autoservice_user_permissions =
             [autoservice_manage, autoservice_manage_provided_maintenance]\<rparr>] \<and>
     holds_permission db' (user_uid u) (autoservice_id created) autoservice_manage \<and>
     holds_permission db' (user_uid u) (autoservice_id created)
       autoservice_manage_provided_maintenance \<and>
     (reachable db \<longrightarrow>
        (\<forall>rqs changed.
           (\<exists>r db''. patch_autoservice (foldl handle db' rqs) (autoservice_id created) u changed
                       = (Inr r, db'')) \<and>
           validate_autoservice_manage_provided_maintenance_permissions
             (foldl handle db' rqs) created u = Inr ()))"
    using cr t1 t2 h1 h2 later by blast
qed

theorem create_autoservice_makes_creator_owner_witness:
  "create_autoservice demo_initial_db demo_autoservice \<lparr>user_uid = 10\<rparr>
     = (Inr demo_autoservice, demo_autoservice_created_db) \<and>
   reachable demo_initial_db \<and>
   holds_permission demo_autoservice_created_db 10 3 autoservice_manage \<and>
   holds_permission demo_autoservice_created_db 10 3 autoservice_manage_provided_maintenance \<and>
   (\<exists>r db''. patch_autoservice
               (foldl handle demo_autoservice_created_db
                  [CreateCustomer demo_customer \<lparr>user_uid = 11\<rparr>])
               3 \<lparr>user_uid = 10\<rparr> demo_changed_autoservice = (Inr r, db''))"
proof -
  have i: "autoservice_id demo_autoservice = 3" "user_uid \<lparr>user_uid = 10\<rparr> = 10"
    by (simp_all add: demo_autoservice_def)
  have r: "reachable demo_initial_db"
    using initial_demo_initial_db by (rule reachable_initial)
  show ?thesis
    using create_autoservice_makes_creator_owner[of demo_initial_db demo_autoservice
        "\<lparr>user_uid = 10\<rparr>" demo_autoservice demo_autoservice_created_db]
      demo_create_autoservice r
    unfolding i by blast
qed

section \<open>Validation of the executor of a provided maintenance\<close>




















lemma association_Inl:
  "create_provided_maintenance_country_association db ca u = (Inl e, db') \<Longrightarrow> db' = db"
  "create_provided_maintenance_vehicle_brand_association db ba u = (Inl e, db') \<Longrightarrow> db' = db"
  by (auto simp: create_provided_maintenance_country_association_def
      create_provided_maintenance_vehicle_brand_association_def
      association_service_create_country_association_def
      association_service_create_vehicle_brand_association_def create_def
      split: sum.splits option.splits if_splits)





end
